theory Spec2Isabelle
  imports
    Complex_Main
    "HOL-Library.Char_ord"
    "HOL-Library.List_Lexorder"
    "HOL-Library.Multiset"
    "HOL-Library.AList"
    "HOL-Library.Log_Nat"
begin

section \<open>Numbers\<close>

text \<open>
  A JavaScript number is an IEEE-754 binary64 value: a finite value, one of the two
  infinities, or NaN.  \<open>Num x\<close> is the finite value \<open>x\<close>; the finite values that occur
  are the representable ones, those that \<open>round64\<close> leaves as they are.  The two zeros
  are one value, \<open>Num 0\<close>: they are equal for \<^verbatim>\<open>===\<close>, for \<^verbatim>\<open><\<close> and in SQLite.
\<close>

datatype number = Num real | PosInfinity | NegInfinity | NaN

instantiation number :: zero
begin

definition zero_number :: number where
  "zero_number = Num 0"

instance ..

end

definition is_finite :: "number \<Rightarrow> bool" where
  "is_finite v = (case v of Num x \<Rightarrow> True | PosInfinity \<Rightarrow> False | NegInfinity \<Rightarrow> False
                  | NaN \<Rightarrow> False)"

text \<open>The nearest integer, a tie going to the even one.\<close>

definition round_half_even :: "real \<Rightarrow> int" where
  "round_half_even y =
     (let f = \<lfloor>y\<rfloor> in
      if y - of_int f < 1 / 2 then f
      else if 1 / 2 < y - of_int f then f + 1
      else if even f then f else f + 1)"

text \<open>
  For \<open>0 < a\<close>, the integer \<open>e\<close> with \<open>2\<^sup>e \<le> a < 2\<^sup>e\<^sup>+\<^sup>1\<close>, computed from the binary
  length of an integer: of \<open>\<lfloor>a\<rfloor>\<close> when \<open>1 \<le> a\<close>, of \<open>\<lceil>1 / a\<rceil> - 1\<close> otherwise.
\<close>

definition ilog2 :: "real \<Rightarrow> int" where
  "ilog2 a = (if 1 \<le> a then bitlen \<lfloor>a\<rfloor> - 1 else - bitlen (\<lceil>1 / a\<rceil> - 1))"

definition pow2 :: "int \<Rightarrow> real" where
  "pow2 e = (if 0 \<le> e then 2 ^ nat e else 1 / 2 ^ nat (- e))"

text \<open>
  Rounding of a real to binary64, to nearest with ties to even.  The exponent \<open>e\<close> of
  the result is that of \<open>x\<close>, and at least -1022 (below, the values are subnormal);
  the value is rounded to a multiple \<open>m\<close> of \<open>2\<^sup>e\<^sup>-\<^sup>5\<^sup>2\<close>.  A result of magnitude
  \<open>2\<^sup>1\<^sup>0\<^sup>2\<^sup>4\<close> or more is an infinity: that is the case when \<open>1024 \<le> e\<close>, and when
  \<open>e = 1023\<close> and \<open>m\<close> is rounded up to \<open>2\<^sup>5\<^sup>3\<close>.
\<close>

definition round64 :: "real \<Rightarrow> number" where
  "round64 x =
     (if x = 0 then Num 0
      else
        let a = \<bar>x\<bar>;
            e = max (ilog2 a) (- 1022);
            q = pow2 (e - 52);
            m = round_half_even (a / q)
        in if 1024 \<le> e \<or> (e = 1023 \<and> m = 2 ^ 53)
           then (if 0 < x then PosInfinity else NegInfinity)
           else Num (if 0 < x then of_int m * q else - (of_int m * q)))"

text \<open>The Number value of a decimal literal of JavaScript or JSON.\<close>

definition literal :: "real \<Rightarrow> number" where
  "literal x = round64 x"

text \<open>The operator \<^verbatim>\<open>+\<close> on numbers.\<close>

fun fadd :: "number \<Rightarrow> number \<Rightarrow> number" where
  "fadd (Num a) (Num b) = round64 (a + b)"
| "fadd NaN y = NaN"
| "fadd x NaN = NaN"
| "fadd PosInfinity NegInfinity = NaN"
| "fadd NegInfinity PosInfinity = NaN"
| "fadd PosInfinity y = PosInfinity"
| "fadd NegInfinity y = NegInfinity"
| "fadd (Num a) y = y"

text \<open>
  The operator \<^verbatim>\<open>/\<close> with a positive integer as the divisor, as in
  \<^verbatim>\<open>total / numDays\<close>.
\<close>

definition div_by_count :: "number \<Rightarrow> nat \<Rightarrow> number" where
  "div_by_count x n =
     (case x of Num a \<Rightarrow> round64 (a / real n) | PosInfinity \<Rightarrow> PosInfinity
      | NegInfinity \<Rightarrow> NegInfinity | NaN \<Rightarrow> NaN)"

text \<open>\<^verbatim>\<open>Math.round\<close>: the nearest integer, a tie going up.\<close>

fun math_round :: "number \<Rightarrow> number" where
  "math_round (Num x) = Num (of_int \<lfloor>x + 1 / 2\<rfloor>)"
| "math_round v = v"

section \<open>Data model (types.ts)\<close>

text \<open>
  The macro tracker keeps three SQLite tables (entries, items, goals) behind the class
  \<^verbatim>\<open>MacroTrackerDb\<close> (db.ts).  The numbers of items and entries, which the code
  adds, are of the type \<open>number\<close>.  The values of the goals are copied and compared
  with 0, never added; they are reals, that is finite numbers, which is what both
  callers of \<^verbatim>\<open>updateGoals\<close> pass after \<^verbatim>\<open>Number.isFinite\<close>.  Strings are byte lists;
  their order \<open>\<le>\<close> is the lexicographic order on bytes, which is what SQLite's
  default BINARY collation computes on TEXT columns.

  Several TypeScript types share field names.  A record field is a constant of the
  theory, so shared fields live in a common base record:
  \<^item> \<open>'n macros\<close> holds the five fields \<^verbatim>\<open>calories, protein, carbs, fat, fiber\<close> of
    \<^verbatim>\<open>ExtractedItem\<close>, \<^verbatim>\<open>NutritionItem\<close>, \<^verbatim>\<open>Goals\<close> and of the per-day aggregates;
  \<^item> \<open>dated_totals\<close> holds \<^verbatim>\<open>date, total_calories, ..., total_fiber\<close> of
    \<^verbatim>\<open>NutritionEntry\<close> and \<^verbatim>\<open>DailySummary\<close>.
  The field \<^verbatim>\<open>id\<close> is \<open>item_id\<close> on an item, \<open>eid\<close> on an entry and \<open>goals_id\<close> on
  the goals row.
\<close>

record 'n macros =
  calories :: 'n
  protein :: 'n
  carbs :: 'n
  fat :: 'n
  fiber :: 'n

datatype confidence = High | Medium | Low

record extracted_item = "number macros" +
  name :: string
  quantity :: string
  confidence :: confidence

record nutrition_item = extracted_item +
  item_id :: string
  entry_id :: string

record dated_totals =
  date :: string
  total_calories :: number
  total_protein :: number
  total_carbs :: number
  total_fat :: number
  total_fiber :: number

text \<open>A row of the table \<^verbatim>\<open>entries\<close>: a \<^verbatim>\<open>NutritionEntry\<close> without its items.\<close>

record entry_row = dated_totals +
  eid :: string
  created_at :: string
  source :: string
  raw_input :: string

record nutrition_entry = entry_row +
  items :: "nutrition_item list"

record goals = "real macros" +
  goals_id :: string
  updated_at :: string

record daily_summary = dated_totals +
  entry_count :: nat
  entries :: "nutrition_entry list"
  goals :: "goals option"

section \<open>The store\<close>

text \<open>
  A table is the list of its rows in rowid order, which is insertion order (a new row
  gets a rowid above every existing one).  A \<^verbatim>\<open>SELECT\<close> without \<^verbatim>\<open>ORDER BY\<close> returns
  the qualifying rows in that order, as SQLite's scan of the table or of an index on
  the compared column does.
\<close>

record db =
  entries_table :: "entry_row list"
  items_table :: "nutrition_item list"
  goals_table :: "goals list"

text \<open>The store right after the constructor ran \<^verbatim>\<open>SCHEMA_SQL\<close> on a new file.\<close>

definition empty_db :: db where
  "empty_db = \<lparr>entries_table = [], items_table = [], goals_table = []\<rparr>"

text \<open>
  Failures are values.  \<open>SqliteError\<close> carries the code of the constraint that an
  \<^verbatim>\<open>INSERT\<close> violated, \<open>Error\<close> the message of a \<^verbatim>\<open>throw new Error(...)\<close>.
\<close>

datatype error = SqliteError string | Error string

text \<open>
  SQLite binds NaN as NULL, and every REAL column of the schema is \<^verbatim>\<open>NOT NULL\<close>; an
  infinity is stored and read back as it is.
\<close>

definition binds_null :: "number list \<Rightarrow> bool" where
  "binds_null vs = (NaN \<in> set vs)"

text \<open>
  \<^verbatim>\<open>INSERT INTO entries\<close>: the column \<^verbatim>\<open>id\<close> is the primary key.
\<close>

definition insert_entry_row :: "entry_row \<Rightarrow> db \<Rightarrow> error + db" where
  "insert_entry_row row d =
     (if binds_null [total_calories row, total_protein row, total_carbs row, total_fat row,
           total_fiber row]
      then Inl (SqliteError ''SQLITE_CONSTRAINT_NOTNULL'')
      else if eid row \<in> set (map eid (entries_table d))
      then Inl (SqliteError ''SQLITE_CONSTRAINT_PRIMARYKEY'')
      else Inr (d\<lparr>entries_table := entries_table d @ [row]\<rparr>))"

text \<open>
  \<^verbatim>\<open>INSERT INTO items\<close>: \<^verbatim>\<open>id\<close> is the primary key, and \<^verbatim>\<open>entry_id\<close> references
  \<^verbatim>\<open>entries(id)\<close>; the constructor switches \<^verbatim>\<open>foreign_keys\<close> on.
\<close>

definition insert_item_row :: "nutrition_item \<Rightarrow> db \<Rightarrow> error + db" where
  "insert_item_row row d =
     (if binds_null [calories row, protein row, carbs row, fat row, fiber row]
      then Inl (SqliteError ''SQLITE_CONSTRAINT_NOTNULL'')
      else if item_id row \<in> set (map item_id (items_table d))
      then Inl (SqliteError ''SQLITE_CONSTRAINT_PRIMARYKEY'')
      else if entry_id row \<notin> set (map eid (entries_table d))
      then Inl (SqliteError ''SQLITE_CONSTRAINT_FOREIGNKEY'')
      else Inr (d\<lparr>items_table := items_table d @ [row]\<rparr>))"

text \<open>
  \<^verbatim>\<open>db.transaction(fn)()\<close> of better-sqlite3: the body runs on the store; when it
  throws, the transaction is rolled back and the exception is passed on, otherwise the
  writes are committed.
\<close>

definition transaction :: "(db \<Rightarrow> error + 'a \<times> db) \<Rightarrow> db \<Rightarrow> (error + 'a) \<times> db" where
  "transaction body d =
     (case body d of
        Inl e \<Rightarrow> (Inl e, d)
      | Inr (r, d') \<Rightarrow> (Inr r, d'))"

section \<open>Entry CRUD (db.ts)\<close>

text \<open>
  One accumulator of the first loop of \<^verbatim>\<open>insertEntry\<close>:
  \<^verbatim>\<open>let total = 0; for (const item of params.items) total += item.f\<close>.
\<close>

definition total_of :: "('a \<Rightarrow> number) \<Rightarrow> 'a list \<Rightarrow> number" where
  "total_of f xs = foldl (\<lambda>total x. fadd total (f x)) 0 xs"

text \<open>\<^verbatim>\<open>{ id: itemId, entry_id: entryId, ...item }\<close>\<close>

definition item_row :: "string \<Rightarrow> string \<Rightarrow> extracted_item \<Rightarrow> nutrition_item" where
  "item_row itemId entryId item =
     extracted_item.extend item (nutrition_item.fields itemId entryId)"

text \<open>\<^verbatim>\<open>{ ...row, items }\<close>\<close>

definition with_items :: "entry_row \<Rightarrow> nutrition_item list \<Rightarrow> nutrition_entry" where
  "with_items row its = entry_row.extend row (nutrition_entry.fields its)"

text \<open>
  The loop over \<^verbatim>\<open>params.items\<close> inside the transaction.  \<open>randomUUID k\<close> is the
  value of the \<open>k\<close>-th call of \<^verbatim>\<open>crypto.randomUUID()\<close> made by this \<^verbatim>\<open>insertEntry\<close>
  (call 0 produced the entry's id), \<open>nutritionItems\<close> the array the loop pushes to.
\<close>

fun insert_items ::
  "(nat \<Rightarrow> string) \<Rightarrow> nat \<Rightarrow> string \<Rightarrow> extracted_item list \<Rightarrow> nutrition_item list \<Rightarrow> db
     \<Rightarrow> error + nutrition_item list \<times> db" where
  "insert_items randomUUID k entryId [] nutritionItems d = Inr (nutritionItems, d)"
| "insert_items randomUUID k entryId (item # rest) nutritionItems d =
     (let itemId = randomUUID k in
      case insert_item_row (item_row itemId entryId item) d of
        Inl e \<Rightarrow> Inl e
      | Inr d' \<Rightarrow>
          insert_items randomUUID (Suc k) entryId rest
            (nutritionItems @ [item_row itemId entryId item]) d')"

text \<open>
  The values that \<^verbatim>\<open>insertEntry\<close> binds to \<^verbatim>\<open>INSERT INTO entries\<close>, which are also
  the fields of the entry it returns: the five totals are the sums of the first loop.
\<close>

definition entry_values ::
  "string \<Rightarrow> string \<Rightarrow> string \<Rightarrow> string \<Rightarrow> string \<Rightarrow> extracted_item list \<Rightarrow> entry_row" where
  "entry_values entryId now p_date p_source p_rawInput p_items =
     \<lparr>date = p_date,
      total_calories = total_of calories p_items,
      total_protein = total_of protein p_items,
      total_carbs = total_of carbs p_items,
      total_fat = total_of fat p_items,
      total_fiber = total_of fiber p_items,
      eid = entryId, created_at = now, source = p_source, raw_input = p_rawInput\<rparr>"

text \<open>
  \<^verbatim>\<open>insertEntry(params)\<close>.  \<open>now\<close> is the value of \<^verbatim>\<open>new Date().toISOString()\<close>.  The
  result is the returned entry or the exception, together with the store after the
  call.
\<close>

definition insertEntry ::
  "(nat \<Rightarrow> string) \<Rightarrow> string \<Rightarrow> string \<Rightarrow> string \<Rightarrow> string \<Rightarrow> extracted_item list \<Rightarrow> db
     \<Rightarrow> (error + nutrition_entry) \<times> db" where
  "insertEntry randomUUID now p_date p_source p_rawInput p_items d =
     (let entryId = randomUUID 0;
          row = entry_values entryId now p_date p_source p_rawInput p_items;
          txn = transaction (\<lambda>d0.
                  case insert_entry_row row d0 of
                    Inl e \<Rightarrow> Inl e
                  | Inr d1 \<Rightarrow> insert_items randomUUID 1 entryId p_items [] d1)
      in case txn d of
           (Inl e, d') \<Rightarrow> (Inl e, d')
         | (Inr nutritionItems, d') \<Rightarrow> (Inr (with_items row nutritionItems), d'))"

text \<open>\<^verbatim>\<open>SELECT * FROM items WHERE entry_id = ?\<close>\<close>

definition items_of :: "string \<Rightarrow> db \<Rightarrow> nutrition_item list" where
  "items_of i d = filter (\<lambda>it. entry_id it = i) (items_table d)"

definition getEntry :: "string \<Rightarrow> db \<Rightarrow> nutrition_entry option" where
  "getEntry i d =
     (case find (\<lambda>r. eid r = i) (entries_table d) of
        None \<Rightarrow> None
      | Some row \<Rightarrow> Some (with_items row (items_of i d)))"

text \<open>
  \<^verbatim>\<open>DELETE FROM entries WHERE id = ?\<close>.  \<open>changes\<close> counts the deleted rows of
  \<^verbatim>\<open>entries\<close>; \<^verbatim>\<open>ON DELETE CASCADE\<close> removes the item rows that reference a deleted
  row.
\<close>

definition deleteEntry :: "string \<Rightarrow> db \<Rightarrow> bool \<times> db" where
  "deleteEntry i d =
     (let deleted = filter (\<lambda>r. eid r = i) (entries_table d);
          changes = length deleted
      in (changes > 0,
          d\<lparr>entries_table := filter (\<lambda>r. eid r \<noteq> i) (entries_table d),
            items_table :=
              filter (\<lambda>it. entry_id it \<notin> set (map eid deleted)) (items_table d)\<rparr>))"

text \<open>
  \<^verbatim>\<open>SELECT * FROM entries WHERE date >= ? AND date <= ? ORDER BY created_at ASC\<close>, then
  the items of each row.  SQLite finds the rows of the range by the index on
  \<^verbatim>\<open>date\<close>, that is in the order of their dates and, for equal dates, of their
  rowids; the sort by \<^verbatim>\<open>created_at\<close> leaves rows with equal keys in that order.
\<close>

definition getEntriesByDateRange :: "string \<Rightarrow> string \<Rightarrow> db \<Rightarrow> nutrition_entry list" where
  "getEntriesByDateRange from_date to_date d =
     (let rows = sort_key created_at
                   (sort_key date
                      (filter (\<lambda>r. date r \<ge> from_date \<and> date r \<le> to_date)
                         (entries_table d)))
      in map (\<lambda>row. with_items row (items_of (eid row) d)) rows)"

section \<open>Goals CRUD (db.ts)\<close>

text \<open>\<^verbatim>\<open>SELECT * FROM goals WHERE id = 'default'\<close>\<close>

definition getGoals :: "db \<Rightarrow> goals option" where
  "getGoals d = find (\<lambda>g. goals_id g = ''default'') (goals_table d)"

text \<open>The operator \<^verbatim>\<open>a ?? b\<close>; an absent (undefined) value is \<open>None\<close>.\<close>

definition nullish :: "'a option \<Rightarrow> 'a \<Rightarrow> 'a" where
  "nullish a b = (case a of Some v \<Rightarrow> v | None \<Rightarrow> b)"

text \<open>
  \<^verbatim>\<open>INSERT INTO goals ... ON CONFLICT(id) DO UPDATE SET ...\<close>: a row with the same
  \<^verbatim>\<open>id\<close> takes the five values and the timestamp of the new one; without such a row
  the new one is inserted.
\<close>

definition upsert_goals :: "goals \<Rightarrow> goals list \<Rightarrow> goals list" where
  "upsert_goals g rows =
     (if goals_id g \<in> set (map goals_id rows)
      then map (\<lambda>r. if goals_id r = goals_id g
                     then r\<lparr>calories := calories g, protein := protein g, carbs := carbs g,
                            fat := fat g, fiber := fiber g, updated_at := updated_at g\<rparr>
                     else r) rows
      else rows @ [g])"

text \<open>
  \<^verbatim>\<open>updateGoals(params)\<close>.  \<open>params\<close> is the partial object: \<open>params k = None\<close> when
  the field \<open>k\<close> is absent.  The function has no \<^verbatim>\<open>throw\<close>.
\<close>

definition updateGoals :: "string \<Rightarrow> (string \<rightharpoonup> real) \<Rightarrow> db \<Rightarrow> goals \<times> db" where
  "updateGoals now params d =
     (let existing = getGoals d;
          g = \<lparr>calories = nullish (params ''calories'') (nullish (map_option calories existing) 2000),
               protein = nullish (params ''protein'') (nullish (map_option protein existing) 150),
               carbs = nullish (params ''carbs'') (nullish (map_option carbs existing) 250),
               fat = nullish (params ''fat'') (nullish (map_option fat existing) 65),
               fiber = nullish (params ''fiber'') (nullish (map_option fiber existing) 30),
               goals_id = ''default'',
               updated_at = now\<rparr>
      in (g, d\<lparr>goals_table := upsert_goals g (goals_table d)\<rparr>))"

section \<open>Daily summary (db.ts)\<close>

definition getDailySummary :: "string \<Rightarrow> db \<Rightarrow> daily_summary" where
  "getDailySummary p_date d =
     (let es = getEntriesByDateRange p_date p_date d;
          g = getGoals d
      in \<lparr>date = p_date,
          total_calories = total_of total_calories es,
          total_protein = total_of total_protein es,
          total_carbs = total_of total_carbs es,
          total_fat = total_of total_fat es,
          total_fiber = total_of total_fiber es,
          entry_count = length es,
          entries = es,
          goals = g\<rparr>)"

section \<open>The tool update_nutrition_goals (update-goals-tool.ts)\<close>

text \<open>
  The values the tool finds under the five keys of its \<^verbatim>\<open>params\<close> object, as far as
  \<^verbatim>\<open>typeof v === "number" && Number.isFinite(v)\<close> tells them apart: a finite number;
  NaN or an infinity; anything else, \<^verbatim>\<open>undefined\<close> (an absent key) included.
\<close>

datatype js_value = JsNumber real | JsNonFinite | JsNotNumber

definition goal_keys :: "string list" where
  "goal_keys = [''calories'', ''protein'', ''carbs'', ''fat'', ''fiber'']"

text \<open>\<^verbatim>\<open>typeof v === "number" && Number.isFinite(v)\<close>, with the number when it holds.\<close>

definition finite_number :: "js_value \<Rightarrow> real option" where
  "finite_number v = (case v of JsNumber r \<Rightarrow> Some r | JsNonFinite \<Rightarrow> None | JsNotNumber \<Rightarrow> None)"

text \<open>
  The loop \<^verbatim>\<open>for (const key of [...])\<close> of \<^verbatim>\<open>execute\<close>, building the object
  \<^verbatim>\<open>updates\<close> (an association list of its own properties).
\<close>

fun collect_updates ::
  "string list \<Rightarrow> (string \<Rightarrow> js_value) \<Rightarrow> (string \<times> real) list \<Rightarrow> error + (string \<times> real) list" where
  "collect_updates [] params updates = Inr updates"
| "collect_updates (key # keys) params updates =
     (case finite_number (params key) of
        Some val \<Rightarrow>
          if val < 0 then Inl (Error (key @ '' must be non-negative''))
          else collect_updates keys params (AList.update key val updates)
      | None \<Rightarrow> collect_updates keys params updates)"

text \<open>
  \<^verbatim>\<open>execute(_id, params)\<close>: the result is \<^verbatim>\<open>details.goals\<close> or the exception, with the
  store after the call.
\<close>

definition update_goals_execute ::
  "string \<Rightarrow> (string \<Rightarrow> js_value) \<Rightarrow> db \<Rightarrow> (error + goals) \<times> db" where
  "update_goals_execute now params d =
     (case collect_updates goal_keys params [] of
        Inl e \<Rightarrow> (Inl e, d)
      | Inr updates \<Rightarrow>
          if length (map fst updates) = 0
          then (Inl (Error ''At least one goal value must be provided''), d)
          else (case updateGoals now (map_of updates) d of (g, d') \<Rightarrow> (Inr g, d')))"

section \<open>The tool get_nutrition_summary, range branch (get-summary-tool.ts)\<close>

text \<open>
  The value type of \<^verbatim>\<open>byDate\<close>, an element of \<^verbatim>\<open>days\<close> (\<open>day_date\<close> is its field
  \<^verbatim>\<open>date\<close>) and the object \<^verbatim>\<open>details\<close> of the range branch (\<open>range_from\<close>,
  \<open>range_to\<close> and \<open>range_goals\<close> are its fields \<^verbatim>\<open>from\<close>, \<^verbatim>\<open>to\<close> and \<^verbatim>\<open>goals\<close>).
\<close>

record day_totals = "number macros" +
  count :: nat

record day = day_totals +
  day_date :: string

record range_details =
  range_from :: string
  range_to :: string
  days :: "day list"
  totals :: "number macros"
  averages :: "number macros"
  range_goals :: "goals option"

text \<open>
  \<^verbatim>\<open>byDate\<close> is created by the literal \<^verbatim>\<open>{}\<close>, so a read \<^verbatim>\<open>byDate[k]\<close> of a key it
  does not own finds the property of that name of \<^verbatim>\<open>Object.prototype\<close>, when there is
  one.  These are the names; every one of them holds a function or an object, which
  is truthy.
\<close>

definition inherited_keys :: "string list" where
  "inherited_keys =
     [''constructor'', ''__defineGetter__'', ''__defineSetter__'', ''hasOwnProperty'',
      ''__lookupGetter__'', ''__lookupSetter__'', ''isPrototypeOf'',
      ''propertyIsEnumerable'', ''toString'', ''valueOf'', ''__proto__'',
      ''toLocaleString'']"

definition zero_day :: day_totals where
  "zero_day = \<lparr>calories = 0, protein = 0, carbs = 0, fat = 0, fiber = 0, count = 0\<rparr>"

text \<open>The five \<^verbatim>\<open>d.f += entry.total_f\<close> and \<^verbatim>\<open>d.count += 1\<close>.\<close>

definition add_to_day :: "nutrition_entry \<Rightarrow> day_totals \<Rightarrow> day_totals" where
  "add_to_day entry t =
     t\<lparr>calories := fadd (calories t) (total_calories entry),
       protein := fadd (protein t) (total_protein entry),
       carbs := fadd (carbs t) (total_carbs entry),
       fat := fadd (fat t) (total_fat entry),
       fiber := fadd (fiber t) (total_fiber entry),
       count := count t + 1\<rparr>"

text \<open>
  One round of the loop \<^verbatim>\<open>for (const entry of entries)\<close>.  \<open>byDate\<close> lists the own
  properties of the object in creation order.  Under an inherited key the test
  \<^verbatim>\<open>!byDate[entry.date]\<close> is false and the additions go to the inherited object, so the
  own properties stay as they are.
\<close>

definition by_date_step :: "(string \<times> day_totals) list \<Rightarrow> nutrition_entry \<Rightarrow> (string \<times> day_totals) list" where
  "by_date_step byDate entry =
     (if date entry \<in> set inherited_keys then byDate
      else
        let byDate1 = (if map_of byDate (date entry) = None
                       then byDate @ [(date entry, zero_day)] else byDate)
        in map (\<lambda>(k, t). if k = date entry then (k, add_to_day entry t) else (k, t)) byDate1)"

text \<open>
  \<^verbatim>\<open>Object.entries\<close> lists the own properties whose key is an array index (the
  canonical decimal string of an integer below \<open>2\<^sup>3\<^sup>2 - 1\<close>) first, in ascending numeric
  order, then the others in creation order.
\<close>

definition digit_of :: "char \<Rightarrow> nat option" where
  "digit_of c = (if CHR ''0'' \<le> c \<and> c \<le> CHR ''9'' then Some (of_char c - 48) else None)"

fun decimal :: "string \<Rightarrow> nat \<Rightarrow> nat option" where
  "decimal [] acc = Some acc"
| "decimal (c # cs) acc =
     (case digit_of c of None \<Rightarrow> None | Some v \<Rightarrow> decimal cs (10 * acc + v))"

definition array_index :: "string \<Rightarrow> nat option" where
  "array_index s =
     (case s of
        [] \<Rightarrow> None
      | c # cs \<Rightarrow>
          if c = CHR ''0'' \<and> cs \<noteq> [] then None
          else (case decimal s 0 of
                  None \<Rightarrow> None
                | Some n \<Rightarrow> if n < 4294967295 then Some n else None))"

definition own_entries :: "(string \<times> 'a) list \<Rightarrow> (string \<times> 'a) list" where
  "own_entries obj =
     sort_key (\<lambda>(k, t). case array_index k of Some n \<Rightarrow> n | None \<Rightarrow> 0)
       (filter (\<lambda>(k, t). array_index k \<noteq> None) obj)
     @ filter (\<lambda>(k, t). array_index k = None) obj"

text \<open>
  \<^verbatim>\<open>toSorted(cmp)\<close>: the sort of ECMAScript is stable, so with a comparator that is a
  consistent ordering its result is that of this insertion sort.
\<close>

fun insert_by :: "('a \<Rightarrow> 'a \<Rightarrow> int) \<Rightarrow> 'a \<Rightarrow> 'a list \<Rightarrow> 'a list" where
  "insert_by cmp x [] = [x]"
| "insert_by cmp x (y # ys) =
     (if cmp x y \<le> 0 then x # y # ys else y # insert_by cmp x ys)"

definition toSorted :: "('a \<Rightarrow> 'a \<Rightarrow> int) \<Rightarrow> 'a list \<Rightarrow> 'a list" where
  "toSorted cmp xs = foldr (insert_by cmp) xs []"

text \<open>\<^verbatim>\<open>{ date, ...totals }\<close>\<close>

definition day_of :: "string \<times> day_totals \<Rightarrow> day" where
  "day_of p = day_totals.extend (snd p) (day.fields (fst p))"

text \<open>
  The branch \<^verbatim>\<open>if (from && to)\<close> of \<^verbatim>\<open>execute\<close>, for non-empty \<open>from_date\<close> and
  \<open>to_date\<close>; the result is \<^verbatim>\<open>details\<close>.  \<open>localeCompare a b\<close> is the value of
  \<^verbatim>\<open>a.localeCompare(b)\<close>, which depends on the collation of the host.
\<close>

definition range_summary ::
  "(string \<Rightarrow> string \<Rightarrow> int) \<Rightarrow> string \<Rightarrow> string \<Rightarrow> db \<Rightarrow> range_details" where
  "range_summary localeCompare from_date to_date d =
     (let es = getEntriesByDateRange from_date to_date d;
          g = getGoals d;
          byDate = foldl by_date_step [] es;
          ds = map day_of
                 (toSorted (\<lambda>a b. localeCompare (fst a) (fst b)) (own_entries byDate));
          totalCalories = total_of calories ds;
          totalProtein = total_of protein ds;
          totalCarbs = total_of carbs ds;
          totalFat = total_of fat ds;
          totalFiber = total_of fiber ds;
          numDays = (if length ds = 0 then 1 else length ds)
      in \<lparr>range_from = from_date, range_to = to_date, days = ds,
          totals = \<lparr>calories = totalCalories, protein = totalProtein, carbs = totalCarbs,
                     fat = totalFat, fiber = totalFiber\<rparr>,
          averages = \<lparr>calories = math_round (div_by_count totalCalories numDays),
                       protein = math_round (div_by_count totalProtein numDays),
                       carbs = math_round (div_by_count totalCarbs numDays),
                       fat = math_round (div_by_count totalFat numDays),
                       fiber = math_round (div_by_count totalFiber numDays)\<rparr>,
          range_goals = g\<rparr>)"

section \<open>Integrity of the store\<close>

text \<open>
  The constraints of the schema: the primary keys, and the foreign key of
  \<^verbatim>\<open>items.entry_id\<close>, which SQLite enforces on every write after
  \<^verbatim>\<open>PRAGMA foreign_keys = ON\<close>.
\<close>

definition pk_ok :: "db \<Rightarrow> bool" where
  "pk_ok d =
     (distinct (map eid (entries_table d)) \<and> distinct (map item_id (items_table d))
      \<and> distinct (map goals_id (goals_table d)))"

definition fk_ok :: "db \<Rightarrow> bool" where
  "fk_ok d = list_all (\<lambda>it. entry_id it \<in> set (map eid (entries_table d))) (items_table d)"

definition wf_db :: "db \<Rightarrow> bool" where
  "wf_db d = (pk_ok d \<and> fk_ok d)"

text \<open>
  The identifiers that an \<^verbatim>\<open>insertEntry\<close> of \<open>n\<close> items draws are new: the entry's
  is no key of \<^verbatim>\<open>entries\<close>, the items' differ from each other and from the keys of
  \<^verbatim>\<open>items\<close>.
\<close>

text \<open>
  The five numbers of an item are finite.  The items that the tool passes are: they
  are parsed from JSON, which has no notation for NaN or an infinity.
\<close>

definition finite_item :: "extracted_item \<Rightarrow> bool" where
  "finite_item item =
     (is_finite (calories item) \<and> is_finite (protein item) \<and> is_finite (carbs item)
      \<and> is_finite (fat item) \<and> is_finite (fiber item))"

definition fresh_ids :: "(nat \<Rightarrow> string) \<Rightarrow> nat \<Rightarrow> db \<Rightarrow> bool" where
  "fresh_ids randomUUID n d =
     (randomUUID 0 \<notin> set (map eid (entries_table d))
      \<and> distinct (map randomUUID [1..<Suc n])
      \<and> list_all (\<lambda>k. randomUUID k \<notin> set (map item_id (items_table d))) [1..<Suc n])"

section \<open>Fixtures of the tests of MacroTrackerDb\<close>

text \<open>
  The items of the test "inserts an entry with items and retrieves it", and the store
  of the test "returns entries within date range" after its three inserts.  The
  identifiers and timestamps, which the tests leave to the runtime, are fixed here.
  The numbers are those of the literals of the tests.
\<close>

definition eggs :: extracted_item where
  "eggs = \<lparr>calories = Num 140, protein = Num 12, carbs = Num 1, fat = Num 10, fiber = Num 0,
            name = ''Eggs'', quantity = ''2 large'', confidence = High\<rparr>"

definition toast :: extracted_item where
  "toast = \<lparr>calories = Num 80, protein = Num 3, carbs = Num 15, fat = Num 1, fiber = Num 1,
             name = ''Toast'', quantity = ''1 slice'', confidence = Medium\<rparr>"

definition test_uuid :: "nat \<Rightarrow> string" where
  "test_uuid k = ''uuid-'' @ replicate k (CHR ''x'')"

definition oats_row :: entry_row where
  "oats_row = \<lparr>date = ''2026-01-14'', total_calories = Num 389, total_protein = Num 17,
                total_carbs = Num 66, total_fat = Num 7, total_fiber = Num 11, eid = ''e14'',
                created_at = ''2026-01-20T10:00:00.000Z'', source = ''manual'',
                raw_input = ''day before''\<rparr>"

definition rice_row :: entry_row where
  "rice_row = \<lparr>date = ''2026-01-15'', total_calories = Num 260, total_protein = Num 5,
                total_carbs = Num 58, total_fat = Num 0.5, total_fiber = literal 0.6,
                eid = ''e15'', created_at = ''2026-01-20T10:00:01.000Z'',
                source = ''manual'', raw_input = ''target day''\<rparr>"

definition pasta_row :: entry_row where
  "pasta_row = \<lparr>date = ''2026-01-16'', total_calories = Num 220, total_protein = Num 8,
                 total_carbs = Num 43, total_fat = literal 1.3, total_fiber = Num 2.5,
                 eid = ''e16'', created_at = ''2026-01-20T10:00:02.000Z'',
                 source = ''manual'', raw_input = ''day after''\<rparr>"

definition oats :: nutrition_item where
  "oats = \<lparr>calories = Num 389, protein = Num 17, carbs = Num 66, fat = Num 7, fiber = Num 11,
            name = ''Oats'', quantity = ''100g'', confidence = High,
            item_id = ''i14'', entry_id = ''e14''\<rparr>"

definition rice :: nutrition_item where
  "rice = \<lparr>calories = Num 260, protein = Num 5, carbs = Num 58, fat = Num 0.5,
            fiber = literal 0.6, name = ''Rice'', quantity = ''200g'', confidence = Medium,
            item_id = ''i15'', entry_id = ''e15''\<rparr>"

definition pasta :: nutrition_item where
  "pasta = \<lparr>calories = Num 220, protein = Num 8, carbs = Num 43, fat = literal 1.3,
             fiber = Num 2.5, name = ''Pasta'', quantity = ''150g'', confidence = Medium,
             item_id = ''i16'', entry_id = ''e16''\<rparr>"

text \<open>A collation for the examples: the order of the bytes.\<close>

definition byte_compare :: "string \<Rightarrow> string \<Rightarrow> int" where
  "byte_compare a b = (if a < b then - 1 else if a = b then 0 else 1)"

definition test_db :: db where
  "test_db = \<lparr>entries_table = [oats_row, rice_row, pasta_row],
               items_table = [oats, rice, pasta], goals_table = []\<rparr>"

section \<open>Numbers and fields\<close>

lemma round64_not_NaN: "round64 x \<noteq> NaN"
  by (simp add: round64_def Let_def)

lemma fadd_finite_not_NaN: "t \<noteq> NaN \<Longrightarrow> is_finite x \<Longrightarrow> fadd t x \<noteq> NaN"
  by (cases t; cases x) (simp_all add: is_finite_def round64_not_NaN)

lemma foldl_fadd_not_NaN:
  "t \<noteq> NaN \<Longrightarrow> list_all (\<lambda>x. is_finite (f x)) xs \<Longrightarrow>
   foldl (\<lambda>total x. fadd total (f x)) t xs \<noteq> NaN"
  by (induction xs arbitrary: t) (simp_all add: fadd_finite_not_NaN)

lemma total_of_not_NaN:
  "list_all (\<lambda>x. is_finite (f x)) xs \<Longrightarrow> total_of f xs \<noteq> NaN"
  unfolding total_of_def by (rule foldl_fadd_not_NaN) (simp_all add: zero_number_def)

lemma total_of_Nil: "total_of f [] = 0"
  by (simp add: total_of_def)

lemma with_items_fields:
  "entry_row.truncate (with_items r its) = r"
  "items (with_items r its) = its"
  "eid (with_items r its) = eid r"
  "created_at (with_items r its) = created_at r"
  "source (with_items r its) = source r"
  "raw_input (with_items r its) = raw_input r"
  "date (with_items r its) = date r"
  "total_calories (with_items r its) = total_calories r"
  "total_protein (with_items r its) = total_protein r"
  "total_carbs (with_items r its) = total_carbs r"
  "total_fat (with_items r its) = total_fat r"
  "total_fiber (with_items r its) = total_fiber r"
  by (simp_all add: with_items_def entry_row.defs nutrition_entry.defs dated_totals.defs)

lemma item_row_fields:
  "extracted_item.truncate (item_row i e it) = it"
  "item_id (item_row i e it) = i"
  "entry_id (item_row i e it) = e"
  "calories (item_row i e it) = calories it"
  "protein (item_row i e it) = protein it"
  "carbs (item_row i e it) = carbs it"
  "fat (item_row i e it) = fat it"
  "fiber (item_row i e it) = fiber it"
  by (simp_all add: item_row_def extracted_item.defs nutrition_item.defs macros.defs)

lemma entry_values_fields:
  "eid (entry_values i now dt src raw its) = i"
  "created_at (entry_values i now dt src raw its) = now"
  "date (entry_values i now dt src raw its) = dt"
  "source (entry_values i now dt src raw its) = src"
  "raw_input (entry_values i now dt src raw its) = raw"
  "total_calories (entry_values i now dt src raw its) = total_of calories its"
  "total_protein (entry_values i now dt src raw its) = total_of protein its"
  "total_carbs (entry_values i now dt src raw its) = total_of carbs its"
  "total_fat (entry_values i now dt src raw its) = total_of fat its"
  "total_fiber (entry_values i now dt src raw its) = total_of fiber its"
  by (simp_all add: entry_values_def)

section \<open>Goals: partial update\<close>

lemma getGoals_upsert:
  "goals_id g = ''default'' \<Longrightarrow>
   find (\<lambda>r. goals_id r = ''default'') (upsert_goals g rows) = Some g"
proof (induction rows)
  case Nil
  then show ?case by (simp add: upsert_goals_def)
next
  case (Cons r rows)
  then show ?case
    by (cases "goals_id r = ''default''") (auto simp: upsert_goals_def)
qed

lemma nullish_cases:
  "nullish p (nullish (map_option f e) dflt) =
     (case p of Some v \<Rightarrow> v | None \<Rightarrow> (case e of Some old \<Rightarrow> f old | None \<Rightarrow> dflt))"
  by (simp add: nullish_def split: option.splits)

lemma updateGoals_fields:
  assumes "updateGoals now params d = (g, d')"
  shows "calories g = (case params ''calories'' of Some v \<Rightarrow> v
                       | None \<Rightarrow> (case getGoals d of Some old \<Rightarrow> calories old | None \<Rightarrow> 2000))"
    and "protein g = (case params ''protein'' of Some v \<Rightarrow> v
                       | None \<Rightarrow> (case getGoals d of Some old \<Rightarrow> protein old | None \<Rightarrow> 150))"
    and "carbs g = (case params ''carbs'' of Some v \<Rightarrow> v
                       | None \<Rightarrow> (case getGoals d of Some old \<Rightarrow> carbs old | None \<Rightarrow> 250))"
    and "fat g = (case params ''fat'' of Some v \<Rightarrow> v
                       | None \<Rightarrow> (case getGoals d of Some old \<Rightarrow> fat old | None \<Rightarrow> 65))"
    and "fiber g = (case params ''fiber'' of Some v \<Rightarrow> v
                       | None \<Rightarrow> (case getGoals d of Some old \<Rightarrow> fiber old | None \<Rightarrow> 30))"
    and "goals_id g = ''default''" and "updated_at g = now"
  using assms by (auto simp: updateGoals_def Let_def nullish_cases)

lemma updateGoals_stored:
  assumes "updateGoals now params d = (g, d')"
  shows "getGoals d' = Some g"
proof -
  have "goals_id g = ''default''" and "goals_table d' = upsert_goals g (goals_table d)"
    using assms by (auto simp: updateGoals_def Let_def)
  then show ?thesis by (simp add: getGoals_def getGoals_upsert)
qed

text \<open>
  Claim C4.  \<^verbatim>\<open>updateGoals\<close> returns the merged record: a field that the partial
  supplies has the supplied value; a field that it omits has the value stored before
  when a goals row exists, and the baseline (2000, 150, 250, 65, 30) when none exists.
  The returned record is the one that \<^verbatim>\<open>getGoals\<close> reads afterwards, so any later
  update that omits a field keeps the value of that record and does not fall back to
  the baseline.
\<close>

theorem updateGoals_partial:
  assumes "updateGoals now params d = (g, d')"
  shows "calories g = (case params ''calories'' of Some v \<Rightarrow> v
                       | None \<Rightarrow> (case getGoals d of Some old \<Rightarrow> calories old | None \<Rightarrow> 2000))
       \<and> protein g = (case params ''protein'' of Some v \<Rightarrow> v
                       | None \<Rightarrow> (case getGoals d of Some old \<Rightarrow> protein old | None \<Rightarrow> 150))
       \<and> carbs g = (case params ''carbs'' of Some v \<Rightarrow> v
                       | None \<Rightarrow> (case getGoals d of Some old \<Rightarrow> carbs old | None \<Rightarrow> 250))
       \<and> fat g = (case params ''fat'' of Some v \<Rightarrow> v
                       | None \<Rightarrow> (case getGoals d of Some old \<Rightarrow> fat old | None \<Rightarrow> 65))
       \<and> fiber g = (case params ''fiber'' of Some v \<Rightarrow> v
                       | None \<Rightarrow> (case getGoals d of Some old \<Rightarrow> fiber old | None \<Rightarrow> 30))
       \<and> getGoals d' = Some g
       \<and> (\<forall>now2 params2 g2 d2. updateGoals now2 params2 d' = (g2, d2) \<longrightarrow>
            (params2 ''calories'' = None \<longrightarrow> calories g2 = calories g)
          \<and> (params2 ''protein'' = None \<longrightarrow> protein g2 = protein g)
          \<and> (params2 ''carbs'' = None \<longrightarrow> carbs g2 = carbs g)
          \<and> (params2 ''fat'' = None \<longrightarrow> fat g2 = fat g)
          \<and> (params2 ''fiber'' = None \<longrightarrow> fiber g2 = fiber g))"
proof -
  note first = updateGoals_fields [OF assms]
  have stored: "getGoals d' = Some g"
    by (rule updateGoals_stored [OF assms])
  have later: "(params2 ''calories'' = None \<longrightarrow> calories g2 = calories g)
          \<and> (params2 ''protein'' = None \<longrightarrow> protein g2 = protein g)
          \<and> (params2 ''carbs'' = None \<longrightarrow> carbs g2 = carbs g)
          \<and> (params2 ''fat'' = None \<longrightarrow> fat g2 = fat g)
          \<and> (params2 ''fiber'' = None \<longrightarrow> fiber g2 = fiber g)"
    if "updateGoals now2 params2 d' = (g2, d2)" for now2 params2 g2 d2
    using updateGoals_fields [OF that] by (simp add: stored)
  from first stored later show ?thesis by blast
qed

text \<open>
  The example of the specification: goals with calories 2500 and protein 180 are
  stored, and an update with only protein 200 follows.
\<close>

theorem updateGoals_partial_witness:
  "updateGoals ''t2'' [''protein'' \<mapsto> 200]
     \<lparr>entries_table = [], items_table = [],
      goals_table = [\<lparr>calories = 2500, protein = 180, carbs = 250, fat = 65, fiber = 30,
                      goals_id = ''default'', updated_at = ''t1''\<rparr>]\<rparr>
   = (\<lparr>calories = 2500, protein = 200, carbs = 250, fat = 65, fiber = 30,
       goals_id = ''default'', updated_at = ''t2''\<rparr>,
      \<lparr>entries_table = [], items_table = [],
       goals_table = [\<lparr>calories = 2500, protein = 200, carbs = 250, fat = 65, fiber = 30,
                       goals_id = ''default'', updated_at = ''t2''\<rparr>]\<rparr>)
   \<and> getGoals
       \<lparr>entries_table = [], items_table = [],
        goals_table = [\<lparr>calories = 2500, protein = 200, carbs = 250, fat = 65, fiber = 30,
                        goals_id = ''default'', updated_at = ''t2''\<rparr>]\<rparr>
     = Some \<lparr>calories = 2500, protein = 200, carbs = 250, fat = 65, fiber = 30,
             goals_id = ''default'', updated_at = ''t2''\<rparr>"
proof -
  have call: "updateGoals ''t2'' [''protein'' \<mapsto> 200]
     \<lparr>entries_table = [], items_table = [],
      goals_table = [\<lparr>calories = 2500, protein = 180, carbs = 250, fat = 65, fiber = 30,
                      goals_id = ''default'', updated_at = ''t1''\<rparr>]\<rparr>
   = (\<lparr>calories = 2500, protein = 200, carbs = 250, fat = 65, fiber = 30,
       goals_id = ''default'', updated_at = ''t2''\<rparr>,
      \<lparr>entries_table = [], items_table = [],
       goals_table = [\<lparr>calories = 2500, protein = 200, carbs = 250, fat = 65, fiber = 30,
                       goals_id = ''default'', updated_at = ''t2''\<rparr>]\<rparr>)"
    by (simp add: updateGoals_def Let_def nullish_def getGoals_def upsert_goals_def)
  from updateGoals_partial [OF call] call show ?thesis by simp
qed

section \<open>Goals: the checks of the tool\<close>

lemma collect_updates_negative:
  assumes "\<exists>k \<in> set ks. \<exists>v. finite_number (params k) = Some v \<and> v < 0"
  shows "\<exists>k \<in> set ks. collect_updates ks params acc = Inl (Error (k @ '' must be non-negative''))"
  using assms
proof (induction ks arbitrary: acc)
  case Nil
  then show ?case by simp
next
  case (Cons k ks)
  show ?case
  proof (cases "\<exists>v. finite_number (params k) = Some v \<and> v < 0")
    case True
    then show ?thesis by auto
  next
    case False
    with Cons.prems have later: "\<exists>k \<in> set ks. \<exists>v. finite_number (params k) = Some v \<and> v < 0"
      by auto
    show ?thesis
    proof (cases "finite_number (params k)")
      case None
      with Cons.IH [OF later, of acc] show ?thesis by auto
    next
      case (Some v)
      with False have "\<not> v < 0" by simp
      with Some Cons.IH [OF later, of "AList.update k v acc"] show ?thesis by auto
    qed
  qed
qed

lemma collect_updates_ok:
  assumes "\<forall>k \<in> set ks. \<forall>v. finite_number (params k) = Some v \<longrightarrow> 0 \<le> v"
  shows "\<exists>updates. collect_updates ks params acc = Inr updates
           \<and> map_of updates =
               (\<lambda>k. if k \<in> set ks \<and> finite_number (params k) \<noteq> None
                    then finite_number (params k) else map_of acc k)
           \<and> (updates = [] \<longleftrightarrow> acc = [] \<and> (\<forall>k \<in> set ks. finite_number (params k) = None))"
  using assms
proof (induction ks arbitrary: acc)
  case Nil
  then show ?case by simp
next
  case (Cons k ks)
  from Cons.prems have rest: "\<forall>k \<in> set ks. \<forall>v. finite_number (params k) = Some v \<longrightarrow> 0 \<le> v"
    by simp
  show ?case
  proof (cases "finite_number (params k)")
    case None
    from Cons.IH [OF rest, of acc] obtain updates where
      u: "collect_updates ks params acc = Inr updates"
        "map_of updates = (\<lambda>k. if k \<in> set ks \<and> finite_number (params k) \<noteq> None
                    then finite_number (params k) else map_of acc k)"
        "updates = [] \<longleftrightarrow> acc = [] \<and> (\<forall>k \<in> set ks. finite_number (params k) = None)"
      by blast
    show ?thesis
      using None u by (intro exI [of _ updates]) (auto simp: fun_eq_iff)
  next
    case (Some v)
    with Cons.prems have nonneg: "\<not> v < 0" by auto
    have nonempty: "AList.update k v acc \<noteq> []"
      by (cases acc) auto
    from Cons.IH [OF rest, of "AList.update k v acc"] obtain updates where
      u: "collect_updates ks params (AList.update k v acc) = Inr updates"
        "map_of updates = (\<lambda>x. if x \<in> set ks \<and> finite_number (params x) \<noteq> None
                    then finite_number (params x) else map_of (AList.update k v acc) x)"
        "updates = [] \<longleftrightarrow> AList.update k v acc = [] \<and> (\<forall>k \<in> set ks. finite_number (params k) = None)"
      by blast
    show ?thesis
      using Some nonneg nonempty u
      by (intro exI [of _ updates]) (auto simp: fun_eq_iff update_conv')
  qed
qed

text \<open>
  Claim C5, as amended.  \<^verbatim>\<open>updateGoals\<close> has no check and no failure; the checks are
  those of the tool.  Its \<^verbatim>\<open>execute\<close> fails, with the store unchanged, when a finite
  number under one of the five keys is negative, and when no key holds a finite
  number.  When every finite number is non-negative and at least one key holds one,
  it does not fail: it calls \<^verbatim>\<open>updateGoals\<close> with exactly the finite numbers and
  returns the record of that call.
\<close>

theorem update_goals_execute_validation:
  "((\<exists>k \<in> set goal_keys. \<exists>v. finite_number (params k) = Some v \<and> v < 0) \<longrightarrow>
      (\<exists>k \<in> set goal_keys. update_goals_execute now params d
                              = (Inl (Error (k @ '' must be non-negative'')), d)))
   \<and> ((\<forall>k \<in> set goal_keys. finite_number (params k) = None) \<longrightarrow>
        update_goals_execute now params d
          = (Inl (Error ''At least one goal value must be provided''), d))
   \<and> ((\<forall>k \<in> set goal_keys. \<forall>v. finite_number (params k) = Some v \<longrightarrow> 0 \<le> v)
        \<and> (\<exists>k \<in> set goal_keys. finite_number (params k) \<noteq> None) \<longrightarrow>
        update_goals_execute now params d
          = (Inr (fst (updateGoals now ((\<lambda>k. if k \<in> set goal_keys then finite_number (params k) else None)) d)),
             snd (updateGoals now ((\<lambda>k. if k \<in> set goal_keys then finite_number (params k) else None)) d)))"
proof (intro conjI impI)
  assume "\<exists>k \<in> set goal_keys. \<exists>v. finite_number (params k) = Some v \<and> v < 0"
  from collect_updates_negative [OF this, of "[]"]
  show "\<exists>k \<in> set goal_keys. update_goals_execute now params d
                              = (Inl (Error (k @ '' must be non-negative'')), d)"
    by (auto simp: update_goals_execute_def)
next
  assume none: "\<forall>k \<in> set goal_keys. finite_number (params k) = None"
  then have "\<forall>k \<in> set goal_keys. \<forall>v. finite_number (params k) = Some v \<longrightarrow> 0 \<le> v"
    by simp
  from collect_updates_ok [OF this, of "[]"] none
  have "collect_updates goal_keys params [] = Inr []"
    by auto
  then show "update_goals_execute now params d
          = (Inl (Error ''At least one goal value must be provided''), d)"
    by (simp add: update_goals_execute_def)
next
  assume "(\<forall>k \<in> set goal_keys. \<forall>v. finite_number (params k) = Some v \<longrightarrow> 0 \<le> v)
        \<and> (\<exists>k \<in> set goal_keys. finite_number (params k) \<noteq> None)"
  then have ok: "\<forall>k \<in> set goal_keys. \<forall>v. finite_number (params k) = Some v \<longrightarrow> 0 \<le> v"
    and some: "\<exists>k \<in> set goal_keys. finite_number (params k) \<noteq> None"
    by blast+
  from collect_updates_ok [OF ok, of "[]"] obtain updates where
    u: "collect_updates goal_keys params [] = Inr updates"
      "map_of updates = (\<lambda>k. if k \<in> set goal_keys \<and> finite_number (params k) \<noteq> None
                    then finite_number (params k) else map_of [] k)"
      "updates = [] \<longleftrightarrow> [] = ([] :: (string \<times> real) list) \<and> (\<forall>k \<in> set goal_keys. finite_number (params k) = None)"
    by blast
  from u(2) have m: "map_of updates
      = (\<lambda>k. if k \<in> set goal_keys then finite_number (params k) else None)"
    by (auto simp: fun_eq_iff)
  from u(3) some have "updates \<noteq> []" by auto
  with u(1) m show "update_goals_execute now params d
          = (Inr (fst (updateGoals now ((\<lambda>k. if k \<in> set goal_keys then finite_number (params k) else None)) d)),
             snd (updateGoals now ((\<lambda>k. if k \<in> set goal_keys then finite_number (params k) else None)) d))"
    by (simp add: update_goals_execute_def split: prod.splits)
qed

text \<open>
  A call whose only number is negative; a call without any number; and a call with
  the calories 2200 and the protein 180 on a store without goals.
\<close>

theorem update_goals_execute_validation_witness:
  "update_goals_execute ''t''
     (\<lambda>k. if k = ''fat'' then JsNumber (- 1) else JsNotNumber) empty_db
     = (Inl (Error ''fat must be non-negative''), empty_db)
   \<and> update_goals_execute ''t'' (\<lambda>k. JsNotNumber) empty_db
       = (Inl (Error ''At least one goal value must be provided''), empty_db)
   \<and> update_goals_execute ''t''
       (\<lambda>k. if k = ''calories'' then JsNumber 2200
            else if k = ''protein'' then JsNumber 180 else JsNotNumber) empty_db
       = (Inr \<lparr>calories = 2200, protein = 180, carbs = 250, fat = 65, fiber = 30,
               goals_id = ''default'', updated_at = ''t''\<rparr>,
          \<lparr>entries_table = [], items_table = [],
           goals_table = [\<lparr>calories = 2200, protein = 180, carbs = 250, fat = 65, fiber = 30,
                           goals_id = ''default'', updated_at = ''t''\<rparr>]\<rparr>)"
proof -
  let ?neg = "\<lambda>k. if k = ''fat'' then JsNumber (- 1) else JsNotNumber"
  let ?put = "\<lambda>k. if k = ''calories'' then JsNumber 2200
                 else if k = ''protein'' then JsNumber 180 else JsNotNumber"
  have h1: "\<exists>k \<in> set goal_keys. \<exists>v. finite_number (?neg k) = Some v \<and> v < 0"
    by (simp add: goal_keys_def finite_number_def)
  have h2: "\<forall>k \<in> set goal_keys. finite_number (JsNotNumber) = None"
    by (simp add: finite_number_def)
  have h3: "(\<forall>k \<in> set goal_keys. \<forall>v. finite_number (?put k) = Some v \<longrightarrow> 0 \<le> v)
        \<and> (\<exists>k \<in> set goal_keys. finite_number (?put k) \<noteq> None)"
    by (simp add: goal_keys_def finite_number_def)
  from update_goals_execute_validation [of ?neg "''t''" empty_db] h1
  obtain k where "update_goals_execute ''t'' ?neg empty_db
                    = (Inl (Error (k @ '' must be non-negative'')), empty_db)"
    by blast
  moreover have "fst (update_goals_execute ''t'' ?neg empty_db)
                   = Inl (Error ''fat must be non-negative'')"
    by code_simp
  ultimately have first: "update_goals_execute ''t'' ?neg empty_db
                    = (Inl (Error ''fat must be non-negative''), empty_db)"
    by simp
  from update_goals_execute_validation [of "\<lambda>k. JsNotNumber" "''t''" empty_db] h2
  have second: "update_goals_execute ''t'' (\<lambda>k. JsNotNumber) empty_db
       = (Inl (Error ''At least one goal value must be provided''), empty_db)"
    by blast
  have call: "updateGoals ''t''
                (\<lambda>k. if k \<in> set goal_keys then finite_number (?put k) else None) empty_db
       = (\<lparr>calories = 2200, protein = 180, carbs = 250, fat = 65, fiber = 30,
               goals_id = ''default'', updated_at = ''t''\<rparr>,
          \<lparr>entries_table = [], items_table = [],
           goals_table = [\<lparr>calories = 2200, protein = 180, carbs = 250, fat = 65, fiber = 30,
                           goals_id = ''default'', updated_at = ''t''\<rparr>]\<rparr>)"
    by (simp add: updateGoals_def Let_def nullish_def getGoals_def upsert_goals_def
        empty_db_def goal_keys_def finite_number_def)
  from update_goals_execute_validation [of ?put "''t''" empty_db] h3
  have "update_goals_execute ''t'' ?put empty_db
          = (Inr (fst (updateGoals ''t''
                (\<lambda>k. if k \<in> set goal_keys then finite_number (?put k) else None) empty_db)),
             snd (updateGoals ''t''
                (\<lambda>k. if k \<in> set goal_keys then finite_number (?put k) else None) empty_db))"
    by blast
  then have third: "update_goals_execute ''t'' ?put empty_db
       = (Inr \<lparr>calories = 2200, protein = 180, carbs = 250, fat = 65, fiber = 30,
               goals_id = ''default'', updated_at = ''t''\<rparr>,
          \<lparr>entries_table = [], items_table = [],
           goals_table = [\<lparr>calories = 2200, protein = 180, carbs = 250, fat = 65, fiber = 30,
                           goals_id = ''default'', updated_at = ''t''\<rparr>]\<rparr>)"
    unfolding call by simp
  from first second third show ?thesis by simp
qed

text \<open>
  Claim C5 as stated fails.  \<^verbatim>\<open>updateGoals\<close> accepts the empty partial and a partial
  whose fields are all negative; and the tool rejects a call that supplies the
  non-negative calories 2000 next to the negative protein -5.
\<close>

theorem update_goals_validation_counterexample:
  "updateGoals ''t'' Map.empty empty_db
     = (\<lparr>calories = 2000, protein = 150, carbs = 250, fat = 65, fiber = 30,
         goals_id = ''default'', updated_at = ''t''\<rparr>,
        \<lparr>entries_table = [], items_table = [],
         goals_table = [\<lparr>calories = 2000, protein = 150, carbs = 250, fat = 65, fiber = 30,
                         goals_id = ''default'', updated_at = ''t''\<rparr>]\<rparr>)
   \<and> updateGoals ''t'' [''calories'' \<mapsto> - 1, ''protein'' \<mapsto> - 2] empty_db
       = (\<lparr>calories = - 1, protein = - 2, carbs = 250, fat = 65, fiber = 30,
           goals_id = ''default'', updated_at = ''t''\<rparr>,
          \<lparr>entries_table = [], items_table = [],
           goals_table = [\<lparr>calories = - 1, protein = - 2, carbs = 250, fat = 65, fiber = 30,
                           goals_id = ''default'', updated_at = ''t''\<rparr>]\<rparr>)
   \<and> update_goals_execute ''t''
       (\<lambda>k. if k = ''calories'' then JsNumber 2000
            else if k = ''protein'' then JsNumber (- 5) else JsNotNumber) empty_db
       = (Inl (Error ''protein must be non-negative''), empty_db)"
proof -
  have "update_goals_execute ''t''
       (\<lambda>k. if k = ''calories'' then JsNumber 2000
            else if k = ''protein'' then JsNumber (- 5) else JsNotNumber) empty_db
       = (Inl (Error ''protein must be non-negative''), empty_db)"
    by code_simp
  then show ?thesis
    by (simp add: updateGoals_def Let_def nullish_def getGoals_def upsert_goals_def empty_db_def)
qed

section \<open>Range query\<close>

lemma getEntriesByDateRange_none:
  assumes "\<forall>r \<in> set (entries_table d). \<not> (from_date \<le> date r \<and> date r \<le> to_date)"
  shows "getEntriesByDateRange from_date to_date d = []"
  using assms by (simp add: getEntriesByDateRange_def Let_def filter_empty_conv)

lemma truncate_range_result:
  "map entry_row.truncate (getEntriesByDateRange f t d)
     = sort_key created_at
         (sort_key date (filter (\<lambda>r. f \<le> date r \<and> date r \<le> t) (entries_table d)))"
  by (simp add: getEntriesByDateRange_def Let_def o_def with_items_fields)

lemma created_at_range_result:
  "map created_at (getEntriesByDateRange f t d)
     = map created_at (sort_key created_at
         (sort_key date (filter (\<lambda>r. f \<le> date r \<and> date r \<le> t) (entries_table d))))"
  by (simp add: getEntriesByDateRange_def Let_def o_def with_items_fields)

lemma items_range_result:
  "e \<in> set (getEntriesByDateRange f t d) \<Longrightarrow> items e = items_of (eid e) d"
  by (auto simp: getEntriesByDateRange_def Let_def with_items_fields)

text \<open>
  Claim C6.  \<^verbatim>\<open>getEntriesByDateRange(from, to)\<close> returns the rows of \<^verbatim>\<open>entries\<close> whose
  date \<open>x\<close> satisfies \<open>from \<le> x \<le> to\<close> in the lexicographic order of strings, each row
  once (both bounds are included, every other row is left out), in ascending order of
  \<^verbatim>\<open>created_at\<close>, each with the items that reference it; when no row is in the range
  the result is the empty list.
\<close>

theorem getEntriesByDateRange_inclusive:
  "mset (map entry_row.truncate (getEntriesByDateRange f t d))
     = mset (filter (\<lambda>r. f \<le> date r \<and> date r \<le> t) (entries_table d))
   \<and> sorted (map created_at (getEntriesByDateRange f t d))
   \<and> (\<forall>e \<in> set (getEntriesByDateRange f t d). items e = items_of (eid e) d)
   \<and> ((\<forall>r \<in> set (entries_table d). \<not> (f \<le> date r \<and> date r \<le> t))
        \<longrightarrow> getEntriesByDateRange f t d = [])"
proof -
  have "mset (map entry_row.truncate (getEntriesByDateRange f t d))
     = mset (filter (\<lambda>r. f \<le> date r \<and> date r \<le> t) (entries_table d))"
    by (simp add: truncate_range_result)
  moreover have "sorted (map created_at (getEntriesByDateRange f t d))"
    by (simp add: created_at_range_result)
  moreover have "\<forall>e \<in> set (getEntriesByDateRange f t d). items e = items_of (eid e) d"
    by (simp add: items_range_result)
  moreover have "(\<forall>r \<in> set (entries_table d). \<not> (f \<le> date r \<and> date r \<le> t))
        \<longrightarrow> getEntriesByDateRange f t d = []"
    by (simp add: getEntriesByDateRange_none)
  ultimately show ?thesis by blast
qed

text \<open>
  The test "returns entries within date range": the range from 2026-01-14 to
  2026-01-15 holds the entries of both bounds and not the one of 2026-01-16; a range
  in 2027 holds none.
\<close>

theorem getEntriesByDateRange_inclusive_witness:
  "map eid (getEntriesByDateRange ''2026-01-14'' ''2026-01-15'' test_db) = [''e14'', ''e15'']
   \<and> map items (getEntriesByDateRange ''2026-01-14'' ''2026-01-15'' test_db) = [[oats], [rice]]
   \<and> getEntriesByDateRange ''2027-01-01'' ''2027-12-31'' test_db = []"
proof -
  have ids: "map eid (getEntriesByDateRange ''2026-01-14'' ''2026-01-15'' test_db) = [''e14'', ''e15'']"
    by code_simp
  have its: "map items (getEntriesByDateRange ''2026-01-14'' ''2026-01-15'' test_db) = [[oats], [rice]]"
    by code_simp
  have none: "\<forall>r \<in> set (entries_table test_db).
                \<not> (''2027-01-01'' \<le> date r \<and> date r \<le> ''2027-12-31'')"
    by (simp add: test_db_def oats_row_def rice_row_def pasta_row_def)
  from getEntriesByDateRange_inclusive [of "''2027-01-01''" "''2027-12-31''" test_db] none
  have "getEntriesByDateRange ''2027-01-01'' ''2027-12-31'' test_db = []"
    by blast
  with ids its show ?thesis by simp
qed

section \<open>Daily summary\<close>

text \<open>
  Claim C10.  The summary of \<^verbatim>\<open>getDailySummary\<close> is consistent with itself, for every
  store and date: \<^verbatim>\<open>entry_count\<close> is the length of \<^verbatim>\<open>entries\<close>, and each of the
  five totals is the sum of the stored total of that name over \<^verbatim>\<open>entries\<close>: the
  stored totals added with \<^verbatim>\<open>+\<close> one after the other to 0, in the order of the list.
\<close>

theorem getDailySummary_consistent:
  "entry_count (getDailySummary p_date d) = length (entries (getDailySummary p_date d))
   \<and> total_calories (getDailySummary p_date d)
       = foldl (\<lambda>total e. fadd total (total_calories e)) 0 (entries (getDailySummary p_date d))
   \<and> total_protein (getDailySummary p_date d)
       = foldl (\<lambda>total e. fadd total (total_protein e)) 0 (entries (getDailySummary p_date d))
   \<and> total_carbs (getDailySummary p_date d)
       = foldl (\<lambda>total e. fadd total (total_carbs e)) 0 (entries (getDailySummary p_date d))
   \<and> total_fat (getDailySummary p_date d)
       = foldl (\<lambda>total e. fadd total (total_fat e)) 0 (entries (getDailySummary p_date d))
   \<and> total_fiber (getDailySummary p_date d)
       = foldl (\<lambda>total e. fadd total (total_fiber e)) 0 (entries (getDailySummary p_date d))"
  by (simp add: getDailySummary_def Let_def total_of_def)

text \<open>
  Claim C8.  For a date that no stored entry carries, \<^verbatim>\<open>getDailySummary\<close> returns the
  summary with the five totals 0, \<^verbatim>\<open>entry_count\<close> 0 and no entries (and the current
  goals); the function has no failure.
\<close>

theorem getDailySummary_empty:
  assumes "\<forall>r \<in> set (entries_table d). date r \<noteq> p_date"
  shows "getDailySummary p_date d =
           \<lparr>date = p_date, total_calories = 0, total_protein = 0, total_carbs = 0,
            total_fat = 0, total_fiber = 0, entry_count = 0, entries = [],
            goals = getGoals d\<rparr>"
proof -
  have "getEntriesByDateRange p_date p_date d = []"
    using assms by (intro getEntriesByDateRange_none) auto
  then show ?thesis
    by (simp add: getDailySummary_def Let_def total_of_def)
qed

text \<open>The test "returns zero totals for day with no entries", on the store of three entries.\<close>

theorem getDailySummary_empty_witness:
  "getDailySummary ''2099-12-31'' test_db =
     \<lparr>date = ''2099-12-31'', total_calories = 0, total_protein = 0, total_carbs = 0,
      total_fat = 0, total_fiber = 0, entry_count = 0, entries = [], goals = None\<rparr>"
proof -
  have "\<forall>r \<in> set (entries_table test_db). date r \<noteq> ''2099-12-31''"
    by (simp add: test_db_def oats_row_def rice_row_def pasta_row_def)
  from getDailySummary_empty [OF this] show ?thesis
    by (simp add: getGoals_def test_db_def)
qed

section \<open>Delete\<close>

lemma deleteEntry_result:
  "fst (deleteEntry i d) = (i \<in> set (map eid (entries_table d)))"
  by (auto simp: deleteEntry_def Let_def filter_empty_conv)

lemma deleteEntry_absent:
  assumes "i \<notin> set (map eid (entries_table d))"
  shows "deleteEntry i d = (False, d)"
proof -
  have none: "filter (\<lambda>r. eid r = i) (entries_table d) = []"
    using assms by (auto simp: filter_empty_conv)
  have same: "filter (\<lambda>r. eid r \<noteq> i) (entries_table d) = entries_table d"
    using assms by (auto simp: filter_id_conv)
  show ?thesis by (simp add: deleteEntry_def Let_def none same)
qed

lemma deleteEntry_present:
  assumes "i \<in> set (map eid (entries_table d))"
  shows "snd (deleteEntry i d) =
           d\<lparr>entries_table := filter (\<lambda>r. eid r \<noteq> i) (entries_table d),
             items_table := filter (\<lambda>it. entry_id it \<noteq> i) (items_table d)\<rparr>"
proof -
  have "set (map eid (filter (\<lambda>r. eid r = i) (entries_table d))) = {i}"
    using assms by auto
  then show ?thesis by (simp add: deleteEntry_def Let_def)
qed

text \<open>
  Claim C7.  \<^verbatim>\<open>deleteEntry(id)\<close> returns true exactly when a row of \<^verbatim>\<open>entries\<close> has
  that id, which is exactly when the table got shorter.  For an id without a row it
  returns false and leaves the store as it is.  After a delete that returned true,
  \<^verbatim>\<open>getEntry(id)\<close> is absent and no row of \<^verbatim>\<open>items\<close> references the id: the items
  of the entry are gone, all other rows remain.
\<close>

theorem deleteEntry_cascade:
  "fst (deleteEntry i d) = (i \<in> set (map eid (entries_table d)))
   \<and> fst (deleteEntry i d)
       = (length (entries_table (snd (deleteEntry i d))) < length (entries_table d))
   \<and> (i \<notin> set (map eid (entries_table d)) \<longrightarrow> deleteEntry i d = (False, d))
   \<and> (fst (deleteEntry i d) \<longrightarrow>
        getEntry i (snd (deleteEntry i d)) = None
        \<and> items_of i (snd (deleteEntry i d)) = []
        \<and> items_table (snd (deleteEntry i d))
            = filter (\<lambda>it. entry_id it \<noteq> i) (items_table d)
        \<and> entries_table (snd (deleteEntry i d))
            = filter (\<lambda>r. eid r \<noteq> i) (entries_table d))"
proof -
  have res: "fst (deleteEntry i d) = (i \<in> set (map eid (entries_table d)))"
    by (rule deleteEntry_result)
  have len: "fst (deleteEntry i d)
       = (length (entries_table (snd (deleteEntry i d))) < length (entries_table d))"
  proof (cases "i \<in> set (map eid (entries_table d))")
    case True
    then obtain r where "r \<in> set (entries_table d)" and "eid r = i"
      by auto
    then have "length (filter (\<lambda>r. eid r \<noteq> i) (entries_table d)) < length (entries_table d)"
      by (intro length_filter_less [of r]) auto
    with True show ?thesis by (simp add: res deleteEntry_present)
  next
    case False
    then show ?thesis by (simp add: deleteEntry_absent)
  qed
  have absent: "i \<notin> set (map eid (entries_table d)) \<longrightarrow> deleteEntry i d = (False, d)"
    by (simp add: deleteEntry_absent)
  have gone: "getEntry i (snd (deleteEntry i d)) = None
        \<and> items_of i (snd (deleteEntry i d)) = []
        \<and> items_table (snd (deleteEntry i d))
            = filter (\<lambda>it. entry_id it \<noteq> i) (items_table d)
        \<and> entries_table (snd (deleteEntry i d))
            = filter (\<lambda>r. eid r \<noteq> i) (entries_table d)"
    if "fst (deleteEntry i d)"
  proof -
    from that have "i \<in> set (map eid (entries_table d))" by (simp add: res)
    then have s: "snd (deleteEntry i d) =
           d\<lparr>entries_table := filter (\<lambda>r. eid r \<noteq> i) (entries_table d),
             items_table := filter (\<lambda>it. entry_id it \<noteq> i) (items_table d)\<rparr>"
      by (rule deleteEntry_present)
    have "find (\<lambda>r. eid r = i) (filter (\<lambda>r. eid r \<noteq> i) (entries_table d)) = None"
      by (simp add: find_None_iff)
    then show ?thesis
      by (simp add: s getEntry_def items_of_def filter_empty_conv)
  qed
  from res len absent gone show ?thesis by blast
qed

text \<open>
  Deleting the entry of 2026-01-15 removes its row and its item; an unknown id changes
  nothing.
\<close>

theorem deleteEntry_cascade_witness:
  "deleteEntry ''e15'' test_db =
     (True, \<lparr>entries_table = [oats_row, pasta_row], items_table = [oats, pasta],
             goals_table = []\<rparr>)
   \<and> deleteEntry ''non-existent'' test_db = (False, test_db)"
proof -
  have absent: "''non-existent'' \<notin> set (map eid (entries_table test_db))"
    by code_simp
  from deleteEntry_cascade [of "''non-existent''" test_db] absent
  have "deleteEntry ''non-existent'' test_db = (False, test_db)"
    by blast
  moreover have "deleteEntry ''e15'' test_db =
     (True, \<lparr>entries_table = [oats_row, pasta_row], items_table = [oats, pasta],
             goals_table = []\<rparr>)"
    by code_simp
  ultimately show ?thesis by simp
qed

section \<open>Insert\<close>

lemma insert_entry_row_Inr:
  assumes "insert_entry_row row d = Inr d'"
  shows "d' = d\<lparr>entries_table := entries_table d @ [row]\<rparr>"
    and "eid row \<notin> set (map eid (entries_table d))"
  using assms by (auto simp: insert_entry_row_def split: if_splits)

lemma finite_item_binds:
  "finite_item it \<Longrightarrow> \<not> binds_null [calories it, protein it, carbs it, fat it, fiber it]"
  by (auto simp: finite_item_def binds_null_def is_finite_def)

lemma finite_items_binds:
  assumes "list_all finite_item its"
  shows "\<not> binds_null [total_of calories its, total_of protein its, total_of carbs its,
           total_of fat its, total_of fiber its]"
proof -
  from assms have "list_all (\<lambda>x. is_finite (calories x)) its"
    "list_all (\<lambda>x. is_finite (protein x)) its" "list_all (\<lambda>x. is_finite (carbs x)) its"
    "list_all (\<lambda>x. is_finite (fat x)) its" "list_all (\<lambda>x. is_finite (fiber x)) its"
    by (simp_all add: list_all_iff finite_item_def)
  from this [THEN total_of_not_NaN] show ?thesis
    by (auto simp: binds_null_def)
qed

lemma insert_item_row_Inr:
  assumes "insert_item_row row d = Inr d'"
  shows "d' = d\<lparr>items_table := items_table d @ [row]\<rparr>"
    and "item_id row \<notin> set (map item_id (items_table d))"
    and "entry_id row \<in> set (map eid (entries_table d))"
  using assms by (auto simp: insert_item_row_def split: if_splits)

lemma upt_step: "[k..<k + length (x # xs)] = k # [Suc k..<Suc k + length xs]"
  using upt_conv_Cons [of k "k + Suc (length xs)"] by simp

lemma insert_items_Inr:
  assumes "insert_items u k eId its acc d = Inr (acc', d')"
  shows "\<exists>rows. acc' = acc @ rows
           \<and> d' = d\<lparr>items_table := items_table d @ rows\<rparr>
           \<and> map extracted_item.truncate rows = its
           \<and> map item_id rows = map u [k..<k + length its]
           \<and> (\<forall>r \<in> set rows. entry_id r = eId)"
  using assms
proof (induction its arbitrary: k acc d)
  case Nil
  then show ?case by simp
next
  case (Cons it its)
  let ?row = "item_row (u k) eId it"
  from Cons.prems obtain d1 where
    ins: "insert_item_row ?row d = Inr d1"
    and rest: "insert_items u (Suc k) eId its (acc @ [?row]) d1 = Inr (acc', d')"
    by (auto simp: Let_def split: sum.splits)
  from insert_item_row_Inr(1) [OF ins]
  have d1: "d1 = d\<lparr>items_table := items_table d @ [?row]\<rparr>" .
  from Cons.IH [OF rest] obtain rows where
    rows: "acc' = (acc @ [?row]) @ rows"
      "d' = d1\<lparr>items_table := items_table d1 @ rows\<rparr>"
      "map extracted_item.truncate rows = its"
      "map item_id rows = map u [Suc k..<Suc k + length its]"
      "\<forall>r \<in> set rows. entry_id r = eId"
    by blast
  note upt_step [of k it its]
  with rows d1 show ?case
    by (intro exI [of _ "?row # rows"]) (simp add: item_row_fields)
qed

lemma insert_items_fresh_ids:
  assumes "list_all finite_item its"
    and "map u [k..<k + length its] = ids"
    and "distinct ids"
    and "set ids \<inter> set (map item_id (items_table d)) = {}"
    and "eId \<in> set (map eid (entries_table d))"
  shows "\<exists>acc' d'. insert_items u k eId its acc d = Inr (acc', d')"
  using assms
proof (induction its arbitrary: k acc d ids)
  case Nil
  then show ?case by simp
next
  case (Cons it its)
  let ?row = "item_row (u k) eId it"
  let ?d1 = "d\<lparr>items_table := items_table d @ [?row]\<rparr>"
  define ids' where "ids' = map u [Suc k..<Suc k + length its]"
  have ids: "ids = u k # ids'"
    using Cons.prems(2) unfolding upt_step ids'_def by simp
  from Cons.prems(1) have "finite_item it" and rest: "list_all finite_item its"
    by simp_all
  from finite_item_binds [OF this(1)]
  have ins: "insert_item_row ?row d = Inr ?d1"
    using Cons.prems(4,5) by (auto simp: ids insert_item_row_def item_row_fields)
  have "\<exists>acc' d'. insert_items u (Suc k) eId its (acc @ [?row]) ?d1 = Inr (acc', d')"
  proof (rule Cons.IH [of "Suc k" ids'])
    show "list_all finite_item its"
      by (rule rest)
    show "map u [Suc k..<Suc k + length its] = ids'"
      by (simp only: ids'_def)
    show "distinct ids'"
      using Cons.prems(3) by (simp add: ids)
    show "set ids' \<inter> set (map item_id (items_table ?d1)) = {}"
      using Cons.prems(3,4) by (auto simp: ids item_row_fields)
    show "eId \<in> set (map eid (entries_table ?d1))"
      using Cons.prems(5) by simp
  qed
  then show ?case by (simp add: ins Let_def)
qed

lemma insertEntry_cases:
  assumes "insertEntry u now dt src raw its d = (r, d')"
  shows "(\<exists>e. r = Inl e \<and> d' = d)
       \<or> (\<exists>rows. r = Inr (with_items (entry_values (u 0) now dt src raw its) rows)
            \<and> d' = d\<lparr>entries_table := entries_table d @ [entry_values (u 0) now dt src raw its],
                      items_table := items_table d @ rows\<rparr>
            \<and> map extracted_item.truncate rows = its
            \<and> map item_id rows = map u [1..<1 + length its]
            \<and> (\<forall>x \<in> set rows. entry_id x = u 0)
            \<and> u 0 \<notin> set (map eid (entries_table d)))"
proof (cases "insert_entry_row (entry_values (u 0) now dt src raw its) d")
  case (Inl e)
  with assms show ?thesis
    by (auto simp: insertEntry_def transaction_def Let_def)
next
  case (Inr d1)
  note d1 = insert_entry_row_Inr [OF Inr]
  show ?thesis
  proof (cases "insert_items u 1 (u 0) its [] d1")
    case (Inl e)
    with Inr assms show ?thesis
      by (auto simp: insertEntry_def transaction_def Let_def)
  next
    case inner: (Inr res)
    obtain rows d2 where res: "res = (rows, d2)" by (cases res)
    from insert_items_Inr [OF inner [unfolded res]] obtain rows' where
      rows': "rows = [] @ rows'" "d2 = d1\<lparr>items_table := items_table d1 @ rows'\<rparr>"
        "map extracted_item.truncate rows' = its"
        "map item_id rows' = map u [1..<1 + length its]"
        "\<forall>x \<in> set rows'. entry_id x = u 0"
      by blast
    from assms Inr inner res
    have "r = Inr (with_items (entry_values (u 0) now dt src raw its) rows)" and "d' = d2"
      by (auto simp: insertEntry_def transaction_def Let_def)
    with rows' d1 show ?thesis
      by (intro disjI2 exI [of _ rows']) (simp add: entry_values_fields)
  qed
qed

lemma insertEntry_fresh:
  assumes "fresh_ids u (length its) d" and "list_all finite_item its"
  shows "\<exists>rows. insertEntry u now dt src raw its d =
           (Inr (with_items (entry_values (u 0) now dt src raw its) rows),
            d\<lparr>entries_table := entries_table d @ [entry_values (u 0) now dt src raw its],
              items_table := items_table d @ rows\<rparr>)
          \<and> map extracted_item.truncate rows = its
          \<and> map item_id rows = map u [1..<1 + length its]
          \<and> (\<forall>x \<in> set rows. entry_id x = u 0)"
proof -
  let ?row = "entry_values (u 0) now dt src raw its"
  let ?d1 = "d\<lparr>entries_table := entries_table d @ [?row]\<rparr>"
  from assms(1) have fresh0: "u 0 \<notin> set (map eid (entries_table d))"
    and dist: "distinct (map u [1..<1 + length its])"
    and new: "set (map u [1..<1 + length its]) \<inter> set (map item_id (items_table d)) = {}"
    by (auto simp: fresh_ids_def list_all_iff)
  have first: "insert_entry_row ?row d = Inr ?d1"
    using fresh0 finite_items_binds [OF assms(2)]
    by (simp add: insert_entry_row_def entry_values_fields)
  have "\<exists>acc' d'. insert_items u 1 (u 0) its [] ?d1 = Inr (acc', d')"
    using dist new assms(2)
    by (intro insert_items_fresh_ids [of its u 1 "map u [1..<1 + length its]"])
       (simp_all add: entry_values_fields)
  then obtain rows d2 where second: "insert_items u 1 (u 0) its [] ?d1 = Inr (rows, d2)"
    by blast
  obtain r d' where call: "insertEntry u now dt src raw its d = (r, d')"
    by (cases "insertEntry u now dt src raw its d")
  from call first second have "r = Inr (with_items ?row rows)"
    by (simp add: insertEntry_def transaction_def Let_def)
  with insertEntry_cases [OF call] call show ?thesis
    by auto
qed

lemma find_append_new:
  "\<forall>r \<in> set rows. \<not> P r \<Longrightarrow> P x \<Longrightarrow> find P (rows @ [x]) = Some x"
  by (induction rows) auto

lemma fk_ok_no_items:
  assumes "fk_ok d" and "i \<notin> set (map eid (entries_table d))"
  shows "filter (\<lambda>it. entry_id it = i) (items_table d) = []"
  using assms by (auto simp: fk_ok_def list_all_iff filter_empty_conv)

text \<open>
  Claim C1.  Let the list of items be non-empty and its numbers finite, the store
  satisfy its foreign key and the drawn identifiers be new.  Then \<^verbatim>\<open>insertEntry\<close>
  returns an entry, and \<^verbatim>\<open>getEntry\<close> of its id returns an entry \<open>e\<close> (the returned one)
  with these properties.  Each of its five totals is the sum of that field over the
  input items by plain floating addition: the values added with \<^verbatim>\<open>+\<close> one after the
  other to 0, in the order of the list, and nothing else applied.  Its items are the
  input items field for field and in the input order.  Its identifiers are the drawn
  ones: the first for the entry, the following ones for the items, each item
  referencing the entry.
\<close>

theorem insertEntry_roundtrip:
  assumes "p_items \<noteq> []"
    and "list_all finite_item p_items"
    and "fk_ok d"
    and "fresh_ids randomUUID (length p_items) d"
  shows "\<exists>entry d' e.
           insertEntry randomUUID now p_date p_source p_rawInput p_items d = (Inr entry, d')
           \<and> getEntry (eid entry) d' = Some e
           \<and> total_calories e = foldl (\<lambda>total item. fadd total (calories item)) 0 p_items
           \<and> total_protein e = foldl (\<lambda>total item. fadd total (protein item)) 0 p_items
           \<and> total_carbs e = foldl (\<lambda>total item. fadd total (carbs item)) 0 p_items
           \<and> total_fat e = foldl (\<lambda>total item. fadd total (fat item)) 0 p_items
           \<and> total_fiber e = foldl (\<lambda>total item. fadd total (fiber item)) 0 p_items
           \<and> map extracted_item.truncate (items e) = p_items
           \<and> eid e = randomUUID 0
           \<and> map item_id (items e) = map randomUUID [1..<Suc (length p_items)]
           \<and> (\<forall>it \<in> set (items e). entry_id it = eid e)
           \<and> date e = p_date \<and> source e = p_source \<and> raw_input e = p_rawInput
           \<and> created_at e = now
           \<and> e = entry"
proof -
  let ?row = "entry_values (randomUUID 0) now p_date p_source p_rawInput p_items"
  from insertEntry_fresh [OF assms(4,2)] obtain rows where
    call: "insertEntry randomUUID now p_date p_source p_rawInput p_items d =
             (Inr (with_items ?row rows),
              d\<lparr>entries_table := entries_table d @ [?row],
                items_table := items_table d @ rows\<rparr>)"
    and trunc: "map extracted_item.truncate rows = p_items"
    and ids: "map item_id rows = map randomUUID [1..<1 + length p_items]"
    and owner: "\<forall>x \<in> set rows. entry_id x = randomUUID 0"
    by blast
  let ?d' = "d\<lparr>entries_table := entries_table d @ [?row], items_table := items_table d @ rows\<rparr>"
  from assms(4) have fresh0: "randomUUID 0 \<notin> set (map eid (entries_table d))"
    by (simp add: fresh_ids_def)
  have found: "find (\<lambda>r. eid r = randomUUID 0) (entries_table d @ [?row]) = Some ?row"
    using fresh0 by (intro find_append_new) (force simp: entry_values_fields)+
  have old: "filter (\<lambda>it. entry_id it = randomUUID 0) (items_table d) = []"
    by (rule fk_ok_no_items [OF assms(3) fresh0])
  have new: "filter (\<lambda>it. entry_id it = randomUUID 0) rows = rows"
    using owner by (simp add: filter_id_conv)
  have get: "getEntry (randomUUID 0) ?d' = Some (with_items ?row rows)"
    by (simp add: getEntry_def items_of_def found old new)
  show ?thesis
    using call get trunc ids owner
    by (intro exI [of _ "with_items ?row rows"] exI [of _ ?d'])
       (simp add: with_items_fields entry_values_fields total_of_def)
qed

text \<open>
  The test "inserts an entry with items and retrieves it": totals 220, 15, 16, 11, 1.
\<close>

theorem insertEntry_roundtrip_witness:
  "\<exists>entry d' e.
     insertEntry test_uuid ''2026-01-15T08:00:00.000Z'' ''2026-01-15'' ''voice''
       ''I had two eggs and toast'' [eggs, toast] empty_db = (Inr entry, d')
     \<and> getEntry (eid entry) d' = Some e
     \<and> total_calories e = Num 220 \<and> total_protein e = Num 15 \<and> total_carbs e = Num 16
     \<and> total_fat e = Num 11 \<and> total_fiber e = Num 1
     \<and> map extracted_item.truncate (items e) = [eggs, toast]
     \<and> eid e = ''uuid-''
     \<and> map item_id (items e) = [''uuid-x'', ''uuid-xx'']"
proof -
  have h1: "[eggs, toast] \<noteq> []" by simp
  have h2: "list_all finite_item [eggs, toast]" by code_simp
  have h3: "fk_ok empty_db" by code_simp
  have h4: "fresh_ids test_uuid (length [eggs, toast]) empty_db" by code_simp
  have ids: "map test_uuid [1..<Suc (length [eggs, toast])] = [''uuid-x'', ''uuid-xx'']"
    by code_simp
  have id0: "test_uuid 0 = ''uuid-''" by code_simp
  have sums: "foldl (\<lambda>total item. fadd total (calories item)) 0 [eggs, toast] = Num 220"
    "foldl (\<lambda>total item. fadd total (protein item)) 0 [eggs, toast] = Num 15"
    "foldl (\<lambda>total item. fadd total (carbs item)) 0 [eggs, toast] = Num 16"
    "foldl (\<lambda>total item. fadd total (fat item)) 0 [eggs, toast] = Num 11"
    "foldl (\<lambda>total item. fadd total (fiber item)) 0 [eggs, toast] = Num 1"
    by code_simp+
  from insertEntry_roundtrip [OF h1 h2 h3 h4, of "''2026-01-15T08:00:00.000Z''"
      "''2026-01-15''" "''voice''" "''I had two eggs and toast''"]
  show ?thesis
    unfolding ids id0 sums
    apply (elim exE conjE)
    subgoal for entry d' e
      by (intro exI [of _ entry] exI [of _ d'] exI [of _ e]) simp
    done
qed

text \<open>
  Claim C3.  Whatever \<^verbatim>\<open>insertEntry\<close> is called with, the store after the call is one
  of two.  When the call returns an entry, \<^verbatim>\<open>entries\<close> has exactly one new row, that
  entry's, and \<^verbatim>\<open>items\<close> has exactly the entry's items as new rows, as many as the
  input has, each referencing the entry.  When the call fails, the store is the one
  before the call: no row of the attempt remains.
\<close>

theorem insertEntry_atomic:
  assumes "insertEntry randomUUID now p_date p_source p_rawInput p_items d = (r, d')"
  shows "case r of
           Inl err \<Rightarrow> d' = d
         | Inr entry \<Rightarrow>
             entries_table d' = entries_table d @ [entry_row.truncate entry]
             \<and> items_table d' = items_table d @ items entry
             \<and> goals_table d' = goals_table d
             \<and> length (items entry) = length p_items
             \<and> (\<forall>it \<in> set (items entry). entry_id it = eid entry)"
  using insertEntry_cases [OF assms]
proof (elim disjE exE conjE)
  fix err
  assume "r = Inl err" "d' = d"
  then show ?thesis by simp
next
  fix rows
  assume "r = Inr (with_items (entry_values (randomUUID 0) now p_date p_source p_rawInput p_items) rows)"
    and "d' = d\<lparr>entries_table := entries_table d @ [entry_values (randomUUID 0) now p_date p_source p_rawInput p_items],
                 items_table := items_table d @ rows\<rparr>"
    and "map extracted_item.truncate rows = p_items"
    and "\<forall>x \<in> set rows. entry_id x = randomUUID 0"
  moreover from this(3) have "length rows = length p_items"
    by (metis length_map)
  ultimately show ?thesis
    by (simp add: with_items_fields entry_values_fields)
qed

text \<open>
  With every identifier equal, the second item violates the primary key of \<^verbatim>\<open>items\<close>
  after the entry and the first item were written; the store after the call is the
  one before.  With distinct identifiers the store gains one entry row and two item
  rows.
\<close>

theorem insertEntry_atomic_witness:
  "insertEntry (\<lambda>k. ''dup'') ''2026-01-15T08:00:00.000Z'' ''2026-01-15'' ''voice''
     ''I had two eggs and toast'' [eggs, toast] test_db
     = (Inl (SqliteError ''SQLITE_CONSTRAINT_PRIMARYKEY''), test_db)
   \<and> length (entries_table (snd (insertEntry test_uuid ''2026-01-15T08:00:00.000Z''
        ''2026-01-15'' ''voice'' ''I had two eggs and toast'' [eggs, toast] test_db))) = 4
   \<and> length (items_table (snd (insertEntry test_uuid ''2026-01-15T08:00:00.000Z''
        ''2026-01-15'' ''voice'' ''I had two eggs and toast'' [eggs, toast] test_db))) = 5"
proof -
  let ?bad = "insertEntry (\<lambda>k. ''dup'') ''2026-01-15T08:00:00.000Z'' ''2026-01-15'' ''voice''
     ''I had two eggs and toast'' [eggs, toast] test_db"
  let ?good = "insertEntry test_uuid ''2026-01-15T08:00:00.000Z'' ''2026-01-15'' ''voice''
     ''I had two eggs and toast'' [eggs, toast] test_db"
  let ?entry = "with_items
      (entry_values ''uuid-'' ''2026-01-15T08:00:00.000Z'' ''2026-01-15'' ''voice''
         ''I had two eggs and toast'' [eggs, toast])
      [item_row ''uuid-x'' ''uuid-'' eggs, item_row ''uuid-xx'' ''uuid-'' toast]"
  have "fst ?bad = Inl (SqliteError ''SQLITE_CONSTRAINT_PRIMARYKEY'')"
    by code_simp
  then have failing: "?bad = (Inl (SqliteError ''SQLITE_CONSTRAINT_PRIMARYKEY''), snd ?bad)"
    by (metis prod.collapse)
  have "fst ?good = Inr ?entry"
    by code_simp
  then have ok: "?good = (Inr ?entry, snd ?good)"
    by (metis prod.collapse)
  have len: "length (entries_table test_db) = 3" "length (items_table test_db) = 3"
    by (simp_all add: test_db_def)
  from insertEntry_atomic [OF failing] insertEntry_atomic [OF ok] failing len
  show ?thesis by (simp add: with_items_fields)
qed

text \<open>
  Claim C2, as amended.  \<^verbatim>\<open>insertEntry\<close> does not check its items: called with the
  empty list and an identifier that is new, it returns an entry with the five totals
  0 and no items, and appends that entry's row to \<^verbatim>\<open>entries\<close>.
\<close>

theorem insertEntry_empty_items:
  assumes "randomUUID 0 \<notin> set (map eid (entries_table d))"
  shows "insertEntry randomUUID now p_date p_source p_rawInput [] d =
           (Inr \<lparr>date = p_date, total_calories = 0, total_protein = 0, total_carbs = 0,
                 total_fat = 0, total_fiber = 0, eid = randomUUID 0, created_at = now,
                 source = p_source, raw_input = p_rawInput, items = []\<rparr>,
            d\<lparr>entries_table := entries_table d @
                [\<lparr>date = p_date, total_calories = 0, total_protein = 0, total_carbs = 0,
                  total_fat = 0, total_fiber = 0, eid = randomUUID 0, created_at = now,
                  source = p_source, raw_input = p_rawInput\<rparr>]\<rparr>)"
  using assms
  by (simp add: insertEntry_def transaction_def Let_def insert_entry_row_def entry_values_def
      total_of_def with_items_def entry_row.defs nutrition_entry.defs dated_totals.defs
      binds_null_def zero_number_def)

text \<open>The empty list on the store of three entries.\<close>

theorem insertEntry_empty_items_witness:
  "insertEntry test_uuid ''2026-01-17T09:00:00.000Z'' ''2026-01-17'' ''text'' ''nothing'' [] test_db =
     (Inr \<lparr>date = ''2026-01-17'', total_calories = 0, total_protein = 0, total_carbs = 0,
           total_fat = 0, total_fiber = 0, eid = ''uuid-'',
           created_at = ''2026-01-17T09:00:00.000Z'', source = ''text'',
           raw_input = ''nothing'', items = []\<rparr>,
      \<lparr>entries_table = [oats_row, rice_row, pasta_row,
         \<lparr>date = ''2026-01-17'', total_calories = 0, total_protein = 0, total_carbs = 0,
          total_fat = 0, total_fiber = 0, eid = ''uuid-'',
          created_at = ''2026-01-17T09:00:00.000Z'', source = ''text'',
          raw_input = ''nothing''\<rparr>],
       items_table = [oats, rice, pasta], goals_table = []\<rparr>)"
proof -
  have fresh: "test_uuid 0 \<notin> set (map eid (entries_table test_db))"
    by code_simp
  have id0: "test_uuid 0 = ''uuid-''" by code_simp
  from insertEntry_empty_items [of test_uuid test_db "''2026-01-17T09:00:00.000Z''"
      "''2026-01-17''" "''text''" "''nothing''", OF fresh]
  show ?thesis by (simp add: id0 test_db_def)
qed

text \<open>
  Claim C2 as stated fails: on the empty store \<^verbatim>\<open>insertEntry\<close> with no items returns
  an entry and leaves its row in \<^verbatim>\<open>entries\<close>.
\<close>

theorem insertEntry_empty_items_counterexample:
  "insertEntry test_uuid ''2026-01-15T08:00:00.000Z'' ''2026-01-15'' ''text'' ''nothing'' [] empty_db =
     (Inr \<lparr>date = ''2026-01-15'', total_calories = 0, total_protein = 0, total_carbs = 0,
           total_fat = 0, total_fiber = 0, eid = ''uuid-'',
           created_at = ''2026-01-15T08:00:00.000Z'', source = ''text'',
           raw_input = ''nothing'', items = []\<rparr>,
      \<lparr>entries_table =
         [\<lparr>date = ''2026-01-15'', total_calories = 0, total_protein = 0, total_carbs = 0,
           total_fat = 0, total_fiber = 0, eid = ''uuid-'',
           created_at = ''2026-01-15T08:00:00.000Z'', source = ''text'',
           raw_input = ''nothing''\<rparr>],
       items_table = [], goals_table = []\<rparr>)"
  by code_simp

section \<open>The operations keep the integrity of the store\<close>

text \<open>
  The hypothesis of claim C1 on the store holds of every store that the operations
  reach from the empty one.
\<close>

lemma wf_db_empty: "wf_db empty_db"
  by (simp add: wf_db_def pk_ok_def fk_ok_def empty_db_def)

lemma insert_entry_row_wf:
  assumes "insert_entry_row row d = Inr d'" and "wf_db d"
  shows "wf_db d'"
  using assms insert_entry_row_Inr [OF assms(1)]
  by (auto simp: wf_db_def pk_ok_def fk_ok_def list_all_iff)

lemma insert_item_row_wf:
  assumes "insert_item_row row d = Inr d'" and "wf_db d"
  shows "wf_db d'"
  using assms(2) insert_item_row_Inr [OF assms(1)]
  by (auto simp: wf_db_def pk_ok_def fk_ok_def list_all_iff)

lemma insert_items_wf:
  assumes "insert_items u k eId its acc d = Inr (acc', d')" and "wf_db d"
  shows "wf_db d'"
  using assms
proof (induction its arbitrary: k acc d)
  case Nil
  then show ?case by simp
next
  case (Cons it its)
  from Cons.prems(1) obtain d1 where
    ins: "insert_item_row (item_row (u k) eId it) d = Inr d1"
    and rest: "insert_items u (Suc k) eId its (acc @ [item_row (u k) eId it]) d1 = Inr (acc', d')"
    by (auto simp: Let_def split: sum.splits)
  from Cons.IH [OF rest insert_item_row_wf [OF ins Cons.prems(2)]] show ?case .
qed

lemma insertEntry_wf:
  assumes "wf_db d"
  shows "wf_db (snd (insertEntry u now dt src raw its d))"
proof (cases "insert_entry_row (entry_values (u 0) now dt src raw its) d")
  case (Inl e)
  with assms show ?thesis
    by (simp add: insertEntry_def transaction_def Let_def)
next
  case (Inr d1)
  note wf1 = insert_entry_row_wf [OF Inr assms]
  show ?thesis
  proof (cases "insert_items u 1 (u 0) its [] d1")
    case (Inl e)
    with Inr assms show ?thesis
      by (simp add: insertEntry_def transaction_def Let_def)
  next
    case inner: (Inr res)
    obtain rows d2 where res: "res = (rows, d2)" by (cases res)
    from insert_items_wf [OF inner [unfolded res] wf1] Inr inner res show ?thesis
      by (simp add: insertEntry_def transaction_def Let_def)
  qed
qed

lemma deleteEntry_wf:
  assumes "wf_db d"
  shows "wf_db (snd (deleteEntry i d))"
proof (cases "i \<in> set (map eid (entries_table d))")
  case True
  from assms show ?thesis
    unfolding deleteEntry_present [OF True]
    by (auto simp: wf_db_def pk_ok_def fk_ok_def list_all_iff distinct_map_filter)
next
  case False
  with assms show ?thesis by (simp add: deleteEntry_absent)
qed

lemma upsert_goals_ids:
  "map goals_id (upsert_goals g rows) =
     (if goals_id g \<in> set (map goals_id rows) then map goals_id rows
      else map goals_id rows @ [goals_id g])"
  by (auto simp: upsert_goals_def)

lemma updateGoals_wf:
  assumes "wf_db d"
  shows "wf_db (snd (updateGoals now params d))"
  using assms
  by (auto simp: updateGoals_def Let_def wf_db_def pk_ok_def fk_ok_def upsert_goals_ids)

section \<open>Range summary\<close>

lemma mset_insert_by: "mset (insert_by cmp x ys) = add_mset x (mset ys)"
  by (induction ys) simp_all

lemma mset_toSorted: "mset (toSorted cmp xs) = mset xs"
  by (induction xs) (simp_all add: toSorted_def mset_insert_by)

lemma mset_own_entries: "mset (own_entries obj) = mset obj"
proof -
  have "mset (filter (\<lambda>(k, t). array_index k \<noteq> None) obj)
          + mset (filter (\<lambda>(k, t). array_index k = None) obj) = mset obj"
    by (induction obj) auto
  then show ?thesis by (simp add: own_entries_def)
qed

lemma mset_sorted_entries: "mset (toSorted cmp (own_entries obj)) = mset obj"
  by (simp add: mset_toSorted mset_own_entries)

lemma keys_update:
  "map fst (map (\<lambda>(k', t). if k' = k then (k', g t) else (k', t)) xs) = map fst xs"
  by (induction xs) auto

lemma by_date_step_keys:
  assumes "date e \<notin> set inherited_keys"
  shows "map fst (by_date_step acc e) =
           (if date e \<in> fst ` set acc then map fst acc else map fst acc @ [date e])"
  using assms
  by (auto simp: by_date_step_def Let_def keys_update map_of_eq_None_iff)

lemma by_date_step_elems:
  assumes "date e \<notin> set inherited_keys" and "(k, t') \<in> set (by_date_step acc e)"
  shows "(k \<noteq> date e \<and> (k, t') \<in> set acc)
       \<or> (k = date e \<and> (\<exists>t. t' = add_to_day e t
             \<and> ((k, t) \<in> set acc \<or> (k \<notin> fst ` set acc \<and> t = zero_day))))"
  using assms
  by (auto simp: by_date_step_def Let_def map_of_eq_None_iff split: if_splits)

lemma by_date_keys:
  assumes "\<forall>e \<in> set es. date e \<notin> set inherited_keys"
  shows "distinct (map fst (foldl by_date_step [] es))
       \<and> fst ` set (foldl by_date_step [] es) = date ` set es"
  using assms
proof (induction es rule: rev_induct)
  case Nil
  then show ?case by simp
next
  case (snoc e es)
  then have IH: "distinct (map fst (foldl by_date_step [] es))"
      "fst ` set (foldl by_date_step [] es) = date ` set es"
    and e: "date e \<notin> set inherited_keys"
    by auto
  have keys: "map fst (foldl by_date_step [] (es @ [e])) =
      (if date e \<in> fst ` set (foldl by_date_step [] es)
       then map fst (foldl by_date_step [] es)
       else map fst (foldl by_date_step [] es) @ [date e])"
    by (simp add: by_date_step_keys [OF e])
  have "distinct (map fst (foldl by_date_step [] (es @ [e])))"
    unfolding keys using IH(1) by auto
  moreover have "set (map fst (foldl by_date_step [] (es @ [e]))) = date ` set (es @ [e])"
    unfolding keys using IH(2) by auto
  ultimately show ?case by simp
qed

lemma by_date_group:
  assumes "\<forall>e \<in> set es. date e \<notin> set inherited_keys"
    and "\<And>e t. f (add_to_day e t) = op (f t) e" and "f zero_day = z"
    and "(k, t) \<in> set (foldl by_date_step [] es)"
  shows "f t = foldl op z (filter (\<lambda>e. date e = k) es)"
  using assms(1,4)
proof (induction es arbitrary: k t rule: rev_induct)
  case Nil
  then show ?case by simp
next
  case (snoc e es)
  then have e: "date e \<notin> set inherited_keys"
    and es: "\<forall>e \<in> set es. date e \<notin> set inherited_keys"
    by auto
  let ?B = "foldl by_date_step [] es"
  from snoc.prems(2) have "(k, t) \<in> set (by_date_step ?B e)"
    by simp
  from by_date_step_elems [OF e this]
  consider (other) "k \<noteq> date e" "(k, t) \<in> set ?B"
    | (same) t0 where "k = date e" "t = add_to_day e t0" "(k, t0) \<in> set ?B"
    | (new) "k = date e" "t = add_to_day e zero_day" "k \<notin> fst ` set ?B"
    by blast
  then show ?case
  proof cases
    case other
    with snoc.IH [OF es other(2)] show ?thesis by simp
  next
    case same
    with snoc.IH [OF es same(3)] assms(2) show ?thesis by simp
  next
    case new
    from new(3) by_date_keys [OF es] have "k \<notin> date ` set es"
      by simp
    then have "filter (\<lambda>e. date e = k) es = []"
      by (auto simp: filter_empty_conv)
    with new assms(2,3) show ?thesis by simp
  qed
qed

lemma add_to_day_fields:
  "calories (add_to_day e t) = fadd (calories t) (total_calories e)"
  "protein (add_to_day e t) = fadd (protein t) (total_protein e)"
  "carbs (add_to_day e t) = fadd (carbs t) (total_carbs e)"
  "fat (add_to_day e t) = fadd (fat t) (total_fat e)"
  "fiber (add_to_day e t) = fadd (fiber t) (total_fiber e)"
  "count (add_to_day e t) = count t + 1"
  by (simp_all add: add_to_day_def)

lemma zero_day_fields:
  "calories zero_day = 0" "protein zero_day = 0" "carbs zero_day = 0"
  "fat zero_day = 0" "fiber zero_day = 0" "count zero_day = 0"
  by (simp_all add: zero_day_def)

lemma day_of_fields:
  "day_date (day_of p) = fst p"
  "calories (day_of p) = calories (snd p)"
  "protein (day_of p) = protein (snd p)"
  "carbs (day_of p) = carbs (snd p)"
  "fat (day_of p) = fat (snd p)"
  "fiber (day_of p) = fiber (snd p)"
  "count (day_of p) = count (snd p)"
  by (simp_all add: day_of_def day_totals.defs day.defs macros.defs)

lemma foldl_count: "foldl (\<lambda>n x. Suc n) k xs = k + length xs"
  by (induction xs arbitrary: k) simp_all

lemma range_summary_fields:
  "days (range_summary cmp f t d)
     = map day_of (toSorted (\<lambda>a b. cmp (fst a) (fst b))
         (own_entries (foldl by_date_step [] (getEntriesByDateRange f t d))))"
  "totals (range_summary cmp f t d)
     = \<lparr>calories = foldl (\<lambda>total dy. fadd total (calories dy)) 0
                      (days (range_summary cmp f t d)),
        protein = foldl (\<lambda>total dy. fadd total (protein dy)) 0
                      (days (range_summary cmp f t d)),
        carbs = foldl (\<lambda>total dy. fadd total (carbs dy)) 0
                      (days (range_summary cmp f t d)),
        fat = foldl (\<lambda>total dy. fadd total (fat dy)) 0
                      (days (range_summary cmp f t d)),
        fiber = foldl (\<lambda>total dy. fadd total (fiber dy)) 0
                      (days (range_summary cmp f t d))\<rparr>"
  "averages (range_summary cmp f t d)
     = \<lparr>calories = math_round (div_by_count (calories (totals (range_summary cmp f t d)))
                      (if length (days (range_summary cmp f t d)) = 0 then 1
                       else length (days (range_summary cmp f t d)))),
        protein = math_round (div_by_count (protein (totals (range_summary cmp f t d)))
                      (if length (days (range_summary cmp f t d)) = 0 then 1
                       else length (days (range_summary cmp f t d)))),
        carbs = math_round (div_by_count (carbs (totals (range_summary cmp f t d)))
                      (if length (days (range_summary cmp f t d)) = 0 then 1
                       else length (days (range_summary cmp f t d)))),
        fat = math_round (div_by_count (fat (totals (range_summary cmp f t d)))
                      (if length (days (range_summary cmp f t d)) = 0 then 1
                       else length (days (range_summary cmp f t d)))),
        fiber = math_round (div_by_count (fiber (totals (range_summary cmp f t d)))
                      (if length (days (range_summary cmp f t d)) = 0 then 1
                       else length (days (range_summary cmp f t d))))\<rparr>"
  "range_goals (range_summary cmp f t d) = getGoals d"
  by (simp_all add: range_summary_def Let_def total_of_def)

lemma days_mset:
  "mset (days (range_summary cmp f t d))
     = image_mset day_of (mset (foldl by_date_step [] (getEntriesByDateRange f t d)))"
  by (simp add: range_summary_fields(1) mset_sorted_entries)

lemma days_dates:
  assumes "\<forall>e \<in> set (getEntriesByDateRange f t d). date e \<notin> set inherited_keys"
  shows "distinct (map day_date (days (range_summary cmp f t d)))"
    and "set (map day_date (days (range_summary cmp f t d)))
           = set (map date (getEntriesByDateRange f t d))"
    and "length (days (range_summary cmp f t d))
           = card (set (map date (getEntriesByDateRange f t d)))"
proof -
  let ?B = "foldl by_date_step [] (getEntriesByDateRange f t d)"
  note keys = by_date_keys [OF assms]
  have m: "mset (map day_date (days (range_summary cmp f t d))) = mset (map fst ?B)"
    by (simp add: days_mset image_mset.compositionality o_def day_of_fields)
  from m keys show d: "distinct (map day_date (days (range_summary cmp f t d)))"
    by (metis mset_eq_imp_distinct_iff)
  from m keys show s: "set (map day_date (days (range_summary cmp f t d)))
           = set (map date (getEntriesByDateRange f t d))"
    by (metis mset_eq_setD set_map)
  from d s show "length (days (range_summary cmp f t d))
           = card (set (map date (getEntriesByDateRange f t d)))"
    by (metis distinct_card length_map)
qed

lemma days_groups:
  assumes "\<forall>e \<in> set (getEntriesByDateRange f t d). date e \<notin> set inherited_keys"
    and "\<And>e x. h (add_to_day e x) = op (h x) e" and "h zero_day = z"
    and "dy \<in> set (days (range_summary cmp f t d))"
  shows "\<exists>p. dy = day_of p \<and> h (snd p)
           = foldl op z (filter (\<lambda>e. date e = day_date dy) (getEntriesByDateRange f t d))"
proof -
  let ?B = "foldl by_date_step [] (getEntriesByDateRange f t d)"
  from assms(4) have "dy \<in># mset (days (range_summary cmp f t d))"
    by simp
  then obtain p where p: "p \<in> set ?B" "dy = day_of p"
    unfolding days_mset by auto
  obtain k x where kx: "p = (k, x)" by (cases p)
  from by_date_group [of "getEntriesByDateRange f t d" h op z k x, OF assms(1,2,3)] p kx
  show ?thesis
    by (intro exI [of _ p]) (simp add: day_of_fields)
qed

lemma average_of_zero: "math_round (div_by_count 0 (Suc 0)) = 0"
  by (simp add: zero_number_def div_by_count_def round64_def)

text \<open>
  Claim C9, as amended.  Let no entry of the range carry a date that is the name of a
  property inherited from \<^verbatim>\<open>Object.prototype\<close>.  Then \<^verbatim>\<open>days\<close> has one element for
  each distinct date of the entries of the range; each of its five numbers is the sum
  of that stored total over the entries of that date, added with \<^verbatim>\<open>+\<close> to 0 in the
  order of the range, and \<^verbatim>\<open>count\<close> is the number of these entries.  Each number of
  \<^verbatim>\<open>totals\<close> is the sum of that number over \<^verbatim>\<open>days\<close>, added with \<^verbatim>\<open>+\<close> to 0 in the
  order of \<^verbatim>\<open>days\<close>.  Each average is \<^verbatim>\<open>Math.round\<close> of the period total divided by
  the number of distinct dates, with the divisor 1 when there is no entry, where all
  averages are 0.  A day without entries is no element of \<^verbatim>\<open>days\<close> and does not count
  in the divisor.
\<close>

theorem range_summary_groups:
  assumes "\<forall>e \<in> set (getEntriesByDateRange from_date to_date d). date e \<notin> set inherited_keys"
  shows "distinct (map day_date (days (range_summary localeCompare from_date to_date d)))
     \<and> set (map day_date (days (range_summary localeCompare from_date to_date d)))
         = set (map date (getEntriesByDateRange from_date to_date d))
     \<and> (\<forall>dy \<in> set (days (range_summary localeCompare from_date to_date d)).
          calories dy = foldl (\<lambda>total e. fadd total (total_calories e)) 0
            (filter (\<lambda>e. date e = day_date dy) (getEntriesByDateRange from_date to_date d))
        \<and> protein dy = foldl (\<lambda>total e. fadd total (total_protein e)) 0
            (filter (\<lambda>e. date e = day_date dy) (getEntriesByDateRange from_date to_date d))
        \<and> carbs dy = foldl (\<lambda>total e. fadd total (total_carbs e)) 0
            (filter (\<lambda>e. date e = day_date dy) (getEntriesByDateRange from_date to_date d))
        \<and> fat dy = foldl (\<lambda>total e. fadd total (total_fat e)) 0
            (filter (\<lambda>e. date e = day_date dy) (getEntriesByDateRange from_date to_date d))
        \<and> fiber dy = foldl (\<lambda>total e. fadd total (total_fiber e)) 0
            (filter (\<lambda>e. date e = day_date dy) (getEntriesByDateRange from_date to_date d))
        \<and> count dy = length
            (filter (\<lambda>e. date e = day_date dy) (getEntriesByDateRange from_date to_date d)))
     \<and> totals (range_summary localeCompare from_date to_date d)
         = \<lparr>calories = foldl (\<lambda>total dy. fadd total (calories dy)) 0
                          (days (range_summary localeCompare from_date to_date d)),
            protein = foldl (\<lambda>total dy. fadd total (protein dy)) 0
                          (days (range_summary localeCompare from_date to_date d)),
            carbs = foldl (\<lambda>total dy. fadd total (carbs dy)) 0
                          (days (range_summary localeCompare from_date to_date d)),
            fat = foldl (\<lambda>total dy. fadd total (fat dy)) 0
                          (days (range_summary localeCompare from_date to_date d)),
            fiber = foldl (\<lambda>total dy. fadd total (fiber dy)) 0
                          (days (range_summary localeCompare from_date to_date d))\<rparr>
     \<and> averages (range_summary localeCompare from_date to_date d)
         = \<lparr>calories = math_round (div_by_count
              (calories (totals (range_summary localeCompare from_date to_date d)))
              (if card (set (map date (getEntriesByDateRange from_date to_date d))) = 0 then 1
               else card (set (map date (getEntriesByDateRange from_date to_date d))))),
            protein = math_round (div_by_count
              (protein (totals (range_summary localeCompare from_date to_date d)))
              (if card (set (map date (getEntriesByDateRange from_date to_date d))) = 0 then 1
               else card (set (map date (getEntriesByDateRange from_date to_date d))))),
            carbs = math_round (div_by_count
              (carbs (totals (range_summary localeCompare from_date to_date d)))
              (if card (set (map date (getEntriesByDateRange from_date to_date d))) = 0 then 1
               else card (set (map date (getEntriesByDateRange from_date to_date d))))),
            fat = math_round (div_by_count
              (fat (totals (range_summary localeCompare from_date to_date d)))
              (if card (set (map date (getEntriesByDateRange from_date to_date d))) = 0 then 1
               else card (set (map date (getEntriesByDateRange from_date to_date d))))),
            fiber = math_round (div_by_count
              (fiber (totals (range_summary localeCompare from_date to_date d)))
              (if card (set (map date (getEntriesByDateRange from_date to_date d))) = 0 then 1
               else card (set (map date (getEntriesByDateRange from_date to_date d)))))\<rparr>
     \<and> (getEntriesByDateRange from_date to_date d = [] \<longrightarrow>
          averages (range_summary localeCompare from_date to_date d)
            = \<lparr>calories = 0, protein = 0, carbs = 0, fat = 0, fiber = 0\<rparr>)"
proof -
  let ?es = "getEntriesByDateRange from_date to_date d"
  let ?R = "range_summary localeCompare from_date to_date d"
  note dates = days_dates [OF assms, of localeCompare]
  have groups: "calories dy = foldl (\<lambda>total e. fadd total (total_calories e)) 0
            (filter (\<lambda>e. date e = day_date dy) ?es)
        \<and> protein dy = foldl (\<lambda>total e. fadd total (total_protein e)) 0
            (filter (\<lambda>e. date e = day_date dy) ?es)
        \<and> carbs dy = foldl (\<lambda>total e. fadd total (total_carbs e)) 0
            (filter (\<lambda>e. date e = day_date dy) ?es)
        \<and> fat dy = foldl (\<lambda>total e. fadd total (total_fat e)) 0
            (filter (\<lambda>e. date e = day_date dy) ?es)
        \<and> fiber dy = foldl (\<lambda>total e. fadd total (total_fiber e)) 0
            (filter (\<lambda>e. date e = day_date dy) ?es)
        \<and> count dy = length (filter (\<lambda>e. date e = day_date dy) ?es)"
    if dy: "dy \<in> set (days ?R)" for dy
  proof -
    from days_groups [OF assms _ _ dy, of calories "\<lambda>total e. fadd total (total_calories e)" 0]
    have c1: "calories dy = foldl (\<lambda>total e. fadd total (total_calories e)) 0
            (filter (\<lambda>e. date e = day_date dy) ?es)"
      by (auto simp: add_to_day_fields zero_day_fields day_of_fields)
    from days_groups [OF assms _ _ dy, of protein "\<lambda>total e. fadd total (total_protein e)" 0]
    have c2: "protein dy = foldl (\<lambda>total e. fadd total (total_protein e)) 0
            (filter (\<lambda>e. date e = day_date dy) ?es)"
      by (auto simp: add_to_day_fields zero_day_fields day_of_fields)
    from days_groups [OF assms _ _ dy, of carbs "\<lambda>total e. fadd total (total_carbs e)" 0]
    have c3: "carbs dy = foldl (\<lambda>total e. fadd total (total_carbs e)) 0
            (filter (\<lambda>e. date e = day_date dy) ?es)"
      by (auto simp: add_to_day_fields zero_day_fields day_of_fields)
    from days_groups [OF assms _ _ dy, of fat "\<lambda>total e. fadd total (total_fat e)" 0]
    have c4: "fat dy = foldl (\<lambda>total e. fadd total (total_fat e)) 0
            (filter (\<lambda>e. date e = day_date dy) ?es)"
      by (auto simp: add_to_day_fields zero_day_fields day_of_fields)
    from days_groups [OF assms _ _ dy, of fiber "\<lambda>total e. fadd total (total_fiber e)" 0]
    have c5: "fiber dy = foldl (\<lambda>total e. fadd total (total_fiber e)) 0
            (filter (\<lambda>e. date e = day_date dy) ?es)"
      by (auto simp: add_to_day_fields zero_day_fields day_of_fields)
    from days_groups [OF assms _ _ dy, of count "\<lambda>n e. n + 1" 0]
    have c6: "count dy = length (filter (\<lambda>e. date e = day_date dy) ?es)"
      by (auto simp: add_to_day_fields zero_day_fields day_of_fields foldl_count)
    from c1 c2 c3 c4 c5 c6 show ?thesis by simp
  qed
  note tot = range_summary_fields(2) [of localeCompare from_date to_date d]
  have avg: "averages ?R
         = \<lparr>calories = math_round (div_by_count (calories (totals ?R))
              (if card (set (map date ?es)) = 0 then 1 else card (set (map date ?es)))),
            protein = math_round (div_by_count (protein (totals ?R))
              (if card (set (map date ?es)) = 0 then 1 else card (set (map date ?es)))),
            carbs = math_round (div_by_count (carbs (totals ?R))
              (if card (set (map date ?es)) = 0 then 1 else card (set (map date ?es)))),
            fat = math_round (div_by_count (fat (totals ?R))
              (if card (set (map date ?es)) = 0 then 1 else card (set (map date ?es)))),
            fiber = math_round (div_by_count (fiber (totals ?R))
              (if card (set (map date ?es)) = 0 then 1 else card (set (map date ?es))))\<rparr>"
    unfolding range_summary_fields(3) dates(3) ..
  have zero: "averages ?R = \<lparr>calories = 0, protein = 0, carbs = 0, fat = 0, fiber = 0\<rparr>"
    if none: "?es = []"
  proof -
    from none dates(3) have "days ?R = []"
      by simp
    with tot have "totals ?R = \<lparr>calories = 0, protein = 0, carbs = 0, fat = 0, fiber = 0\<rparr>"
      by simp
    with none show ?thesis
      unfolding avg by (simp add: average_of_zero)
  qed
  from dates(1,2) groups tot avg zero show ?thesis
    by (intro conjI ballI impI) blast+
qed

text \<open>
  The range from 2026-01-14 to 2026-01-15 of the store of three entries: two days, the
  calories 649 in total and 325 on average (324.5 rounded), the fiber 11 + 0.6 in
  total, which is the number 11.6; and a range without entries.
\<close>

theorem range_summary_groups_witness:
  "map day_date (days (range_summary byte_compare ''2026-01-14'' ''2026-01-15'' test_db))
     = [''2026-01-14'', ''2026-01-15'']
   \<and> totals (range_summary byte_compare ''2026-01-14'' ''2026-01-15'' test_db)
       = \<lparr>calories = Num 649, protein = Num 22, carbs = Num 124, fat = Num 7.5,
          fiber = Num (6530219459687219 / 562949953421312)\<rparr>
   \<and> averages (range_summary byte_compare ''2026-01-14'' ''2026-01-15'' test_db)
       = \<lparr>calories = Num 325, protein = Num 11, carbs = Num 62, fat = Num 4, fiber = Num 6\<rparr>
   \<and> averages (range_summary byte_compare ''2027-01-01'' ''2027-12-31'' test_db)
       = \<lparr>calories = 0, protein = 0, carbs = 0, fat = 0, fiber = 0\<rparr>"
proof -
  have own: "\<forall>e \<in> set (getEntriesByDateRange ''2026-01-14'' ''2026-01-15'' test_db).
               date e \<notin> set inherited_keys"
    by code_simp
  have own2: "\<forall>e \<in> set (getEntriesByDateRange ''2027-01-01'' ''2027-12-31'' test_db).
               date e \<notin> set inherited_keys"
    by code_simp
  have none: "getEntriesByDateRange ''2027-01-01'' ''2027-12-31'' test_db = []"
    by code_simp
  have ds: "map day_date (days (range_summary byte_compare ''2026-01-14'' ''2026-01-15'' test_db))
     = [''2026-01-14'', ''2026-01-15'']"
    by code_simp
  have tot: "totals (range_summary byte_compare ''2026-01-14'' ''2026-01-15'' test_db)
       = \<lparr>calories = Num 649, protein = Num 22, carbs = Num 124, fat = Num 7.5,
          fiber = Num (6530219459687219 / 562949953421312)\<rparr>"
    by code_simp
  have n: "card (set (map date (getEntriesByDateRange ''2026-01-14'' ''2026-01-15'' test_db))) = 2"
    by code_simp
  have rounded: "math_round (div_by_count (Num 649) 2) = Num 325"
    "math_round (div_by_count (Num 22) 2) = Num 11"
    "math_round (div_by_count (Num 124) 2) = Num 62"
    "math_round (div_by_count (Num 7.5) 2) = Num 4"
    "math_round (div_by_count (Num (6530219459687219 / 562949953421312)) 2) = Num 6"
    by code_simp+
  note a = range_summary_groups [OF own, of byte_compare]
  note b = range_summary_groups [OF own2, of byte_compare]
  from a have "averages (range_summary byte_compare ''2026-01-14'' ''2026-01-15'' test_db)
       = \<lparr>calories = math_round (div_by_count (Num 649) 2),
          protein = math_round (div_by_count (Num 22) 2),
          carbs = math_round (div_by_count (Num 124) 2),
          fat = math_round (div_by_count (Num 7.5) 2),
          fiber = math_round (div_by_count (Num (6530219459687219 / 562949953421312)) 2)\<rparr>"
    unfolding n tot by simp
  then have avg: "averages (range_summary byte_compare ''2026-01-14'' ''2026-01-15'' test_db)
       = \<lparr>calories = Num 325, protein = Num 11, carbs = Num 62, fat = Num 4, fiber = Num 6\<rparr>"
    unfolding rounded .
  from b none have "averages (range_summary byte_compare ''2027-01-01'' ''2027-12-31'' test_db)
       = \<lparr>calories = 0, protein = 0, carbs = 0, fat = 0, fiber = 0\<rparr>"
    by blast
  with ds tot avg show ?thesis by simp
qed

text \<open>
  The hypothesis on the dates is needed: an entry dated \<^verbatim>\<open>constructor\<close> is in the
  range from \<^verbatim>\<open>a\<close> to \<^verbatim>\<open>z\<close>, but \<^verbatim>\<open>days\<close> and \<^verbatim>\<open>totals\<close> do not show it.
\<close>

lemma range_summary_inherited_key:
  "map eid (getEntriesByDateRange ''a'' ''z''
      \<lparr>entries_table = [pasta_row\<lparr>date := ''constructor''\<rparr>], items_table = [],
       goals_table = []\<rparr>) = [''e16'']
   \<and> days (range_summary byte_compare ''a'' ''z''
        \<lparr>entries_table = [pasta_row\<lparr>date := ''constructor''\<rparr>], items_table = [],
         goals_table = []\<rparr>) = []
   \<and> calories (totals (range_summary byte_compare ''a'' ''z''
        \<lparr>entries_table = [pasta_row\<lparr>date := ''constructor''\<rparr>], items_table = [],
         goals_table = []\<rparr>)) = 0"
  by code_simp

text \<open>
  The sums and the quotient are those of binary64: three days with the fat 0.1, 4.1
  and 0.3 have the total 4.499999999999999 and the average 1, where the reals give 4.5
  and 2.
\<close>

lemma range_summary_binary64:
  "fat (totals (range_summary byte_compare ''2026-01-14'' ''2026-01-16''
      \<lparr>entries_table = [oats_row\<lparr>total_fat := literal 0.1\<rparr>,
         rice_row\<lparr>total_fat := literal 4.1\<rparr>, pasta_row\<lparr>total_fat := literal 0.3\<rparr>],
       items_table = [], goals_table = []\<rparr>))
     = Num (5066549580791807 / 1125899906842624)
   \<and> fat (averages (range_summary byte_compare ''2026-01-14'' ''2026-01-16''
      \<lparr>entries_table = [oats_row\<lparr>total_fat := literal 0.1\<rparr>,
         rice_row\<lparr>total_fat := literal 4.1\<rparr>, pasta_row\<lparr>total_fat := literal 0.3\<rparr>],
       items_table = [], goals_table = []\<rparr>)) = Num 1"
  by code_simp

text \<open>
  Claim C9 as stated fails: over the three days from 2026-01-14 to 2026-01-16 the
  calories are 869 in total, and the average is 290, not the quotient of 869 by 3.
\<close>

theorem range_summary_average_counterexample:
  "calories (totals (range_summary byte_compare ''2026-01-14'' ''2026-01-16'' test_db)) = Num 869
   \<and> map day_date (days (range_summary byte_compare ''2026-01-14'' ''2026-01-16'' test_db))
       = [''2026-01-14'', ''2026-01-15'', ''2026-01-16'']
   \<and> calories (averages (range_summary byte_compare ''2026-01-14'' ''2026-01-16'' test_db))
       = Num 290
   \<and> div_by_count
        (calories (totals (range_summary byte_compare ''2026-01-14'' ''2026-01-16'' test_db)))
        (length (days (range_summary byte_compare ''2026-01-14'' ''2026-01-16'' test_db)))
       = Num (5095869890865835 / 17592186044416)
   \<and> calories (averages (range_summary byte_compare ''2026-01-14'' ''2026-01-16'' test_db))
       \<noteq> div_by_count
        (calories (totals (range_summary byte_compare ''2026-01-14'' ''2026-01-16'' test_db)))
        (length (days (range_summary byte_compare ''2026-01-14'' ''2026-01-16'' test_db)))"
proof -
  have t: "calories (totals (range_summary byte_compare ''2026-01-14'' ''2026-01-16'' test_db))
             = Num 869"
    by code_simp
  have n: "map day_date (days (range_summary byte_compare ''2026-01-14'' ''2026-01-16'' test_db))
       = [''2026-01-14'', ''2026-01-15'', ''2026-01-16'']"
    by code_simp
  have a: "calories (averages (range_summary byte_compare ''2026-01-14'' ''2026-01-16'' test_db))
             = Num 290"
    by code_simp
  from n have l: "length (days (range_summary byte_compare ''2026-01-14'' ''2026-01-16'' test_db)) = 3"
    by (metis length_map length_Cons list.size(3) numeral_3_eq_3)
  have q: "div_by_count (Num 869) 3 = Num (5095869890865835 / 17592186044416)"
    by code_simp
  from t n a l q show ?thesis by simp
qed

section \<open>Checks of the arithmetic\<close>

lemma literal_examples:
  "literal 0.1 = Num (3602879701896397 / 36028797018963968)"
  "literal 0.2 = Num (3602879701896397 / 18014398509481984)"
  "literal 0.3 = Num (5404319552844595 / 18014398509481984)"
  "literal 0.5 = Num 0.5"
  "literal 140 = Num 140"
  by code_simp+

lemma fadd_examples:
  "fadd (literal 0.1) (literal 0.2) = Num (1351079888211149 / 4503599627370496)"
  "fadd (literal 0.1) (literal 0.2) \<noteq> literal 0.3"
  "fadd (Num 10000000000000000) (Num 1) = Num 10000000000000000"
  "fadd (Num 9007199254740992) (Num 1) = Num 9007199254740992"
  "fadd (Num 9007199254740992) (Num 3) = Num 9007199254740996"
  "fadd (Num (- 5)) (Num 5) = Num 0"
  "fadd (fadd (literal 0.1) (literal 0.2)) (literal 0.3)
     \<noteq> fadd (literal 0.1) (fadd (literal 0.2) (literal 0.3))"
  by code_simp+

lemma insertEntry_binary64:
  "map_sum id total_fat
     (fst (insertEntry test_uuid ''2026-01-15T08:00:00.000Z'' ''2026-01-15'' ''text'' ''x''
        [eggs\<lparr>fat := literal 0.1\<rparr>, toast\<lparr>fat := literal 0.2\<rparr>] empty_db))
     = Inr (Num (1351079888211149 / 4503599627370496))"
  by code_simp

lemma getDailySummary_binary64:
  "total_fat (getDailySummary ''2026-01-15''
      \<lparr>entries_table = [oats_row\<lparr>date := ''2026-01-15'', total_fat := literal 0.1\<rparr>,
         rice_row\<lparr>total_fat := literal 0.2\<rparr>,
         pasta_row\<lparr>date := ''2026-01-15'', total_fat := literal 0.3\<rparr>],
       items_table = [], goals_table = []\<rparr>)
     = Num (1351079888211149 / 2251799813685248)"
  by code_simp

end
